theory Spec2Isabelle
  imports Main
begin

section \<open>JavaScript values and strings\<close>

text \<open>
  A JavaScript string is a sequence of code units; here it is a \<^typ>\<open>string\<close>, one
  \<^typ>\<open>char\<close> per code unit. A value that may be \<^verbatim>\<open>undefined\<close> or \<^verbatim>\<open>null\<close> where the
  code expects a string is a \<^typ>\<open>string option\<close>, \<^term>\<open>None\<close> standing for the missing
  value. Such a value is falsy when it is missing or the empty string.
\<close>

definition truthy_str :: "string option \<Rightarrow> bool" where
  "truthy_str v = (case v of None \<Rightarrow> False | Some s \<Rightarrow> s \<noteq> [])"

text \<open>
  \<^verbatim>\<open>a || b\<close> where \<open>a\<close> may be missing: with \<open>b\<close> possibly missing too (\<open>or_else\<close>), and
  with \<open>b\<close> a string (\<open>or_default\<close>).
\<close>

definition or_else :: "string option \<Rightarrow> string option \<Rightarrow> string option" where
  "or_else a b = (if truthy_str a then a else b)"

definition or_default :: "string option \<Rightarrow> string \<Rightarrow> string" where
  "or_default a b = (case a of None \<Rightarrow> b | Some s \<Rightarrow> if s \<noteq> [] then s else b)"

text \<open>\<^verbatim>\<open>s.startsWith(p)\<close>.\<close>

definition startsWith :: "string \<Rightarrow> string \<Rightarrow> bool" where
  "startsWith s p = (take (length p) s = p)"

text \<open>
  \<^verbatim>\<open>s.replace(pat, rep)\<close> with a string pattern: the first occurrence of \<open>pat\<close>, searched
  from the left, is replaced; a string without an occurrence is returned as it is. (The
  replacement strings of the program contain no \<^verbatim>\<open>$\<close>.)
\<close>

fun replace :: "string \<Rightarrow> string \<Rightarrow> string \<Rightarrow> string" where
  "replace [] pat rep = (if pat = [] then rep else [])"
| "replace (c # cs) pat rep =
     (if startsWith (c # cs) pat then rep @ drop (length pat) (c # cs)
      else c # replace cs pat rep)"

text \<open>\<open>pat\<close> occurs in \<open>s\<close> at some position.\<close>

fun includes_str :: "string \<Rightarrow> string \<Rightarrow> bool" where
  "includes_str [] pat = (pat = [])"
| "includes_str (c # cs) pat = (startsWith (c # cs) pat \<or> includes_str cs pat)"

text \<open>
  \<^verbatim>\<open>s.charCodeAt(i)\<close> as the bitwise operators read it: the code unit at \<open>i\<close>, and \<open>0\<close>
  out of range (the source yields \<^verbatim>\<open>NaN\<close> there, which \<^verbatim>\<open>^\<close> and \<^verbatim>\<open>|\<close> convert to 0).
\<close>

definition charCodeAt :: "string \<Rightarrow> nat \<Rightarrow> int" where
  "charCodeAt s i = (if i < length s then of_char (s ! i) else 0)"


text \<open>
  \<^verbatim>\<open>s.trim()\<close> removes white space and line terminators from both ends. Among the code
  units a \<^typ>\<open>char\<close> can hold these are tab, line feed, vertical tab, form feed, carriage
  return, space and the no-break space.
\<close>

definition isWhiteSpace :: "char \<Rightarrow> bool" where
  "isWhiteSpace c =
     (c \<in> set [CHR 0x09, CHR 0x0A, CHR 0x0B, CHR 0x0C, CHR 0x0D, CHR 0x20, CHR 0xA0])"

definition trim :: "string \<Rightarrow> string" where
  "trim s = rev (dropWhile isWhiteSpace (rev (dropWhile isWhiteSpace s)))"

text \<open>\<^verbatim>\<open>s.split(sep)\<close> for a separator of one character: at least one piece, always.\<close>

fun split :: "string \<Rightarrow> char \<Rightarrow> string list" where
  "split [] sep = [[]]"
| "split (c # cs) sep =
     (if c = sep then [] # split cs sep
      else (case split cs sep of [] \<Rightarrow> [[c]] | w # ws \<Rightarrow> (c # w) # ws))"

text \<open>\<^verbatim>\<open>xs.join(sep)\<close> on an array of strings.\<close>

fun join :: "string list \<Rightarrow> string \<Rightarrow> string" where
  "join [] sep = []"
| "join [x] sep = x"
| "join (x # y # ys) sep = x @ sep @ join (y # ys) sep"

text \<open>\<^verbatim>\<open>s.replace(/c/g, rep)\<close> for a single character \<open>c\<close>: every occurrence is replaced.\<close>

definition replace_all :: "string \<Rightarrow> char \<Rightarrow> string \<Rightarrow> string" where
  "replace_all s c rep = concat (map (\<lambda>x. if x = c then rep else [x]) s)"

text \<open>
  A number is held as the text that \<^verbatim>\<open>String(n)\<close> gives it, which is never empty: the
  program sees a number only through that text, through \<^verbatim>\<open>JSON.stringify\<close> and through
  its truth value, and all three are functions of the text. So every number, fractional
  or large, has its value here; \<open>number_of_text ''1''\<close> is the number 1 and
  \<open>number_of_text ''1e+21''\<close> the number \<open>10\<^sup>2\<^sup>1\<close>.
\<close>

typedef number = "{t :: string. t \<noteq> []}"
  morphisms String_of_number number_of_text
  by (rule exI [of _ "''0''"]) simp

text \<open>
  The values a parsed JSON body is made of, and \<^verbatim>\<open>undefined\<close>. An object is the list of
  its own properties in the order of their creation, which for a parsed body is the order
  of the JSON text; its keys are distinct.
\<close>

datatype jsvalue =
    JUndefined
  | JNull
  | JBool bool
  | JNum number
  | JStr string
  | JArr "jsvalue list"
  | JObj "(string \<times> jsvalue) list"

text \<open>
  What \<^verbatim>\<open>if (v)\<close> and \<^verbatim>\<open>!v\<close> test. The falsy numbers are the two zeros, which both print
  as \<^verbatim>\<open>0\<close>, and \<^verbatim>\<open>NaN\<close>.
\<close>

fun truthy :: "jsvalue \<Rightarrow> bool" where
  "truthy JUndefined = False"
| "truthy JNull = False"
| "truthy (JBool b) = b"
| "truthy (JNum n) = (String_of_number n \<noteq> ''0'' \<and> String_of_number n \<noteq> ''NaN'')"
| "truthy (JStr s) = (s \<noteq> [])"
| "truthy (JArr xs) = True"
| "truthy (JObj kvs) = True"

text \<open>A possibly missing string as a value.\<close>

definition js_of :: "string option \<Rightarrow> jsvalue" where
  "js_of v = (case v of None \<Rightarrow> JUndefined | Some s \<Rightarrow> JStr s)"

text \<open>
  A thrown exception. The only one the handlers can raise outside a \<^verbatim>\<open>try\<close> block is the
  \<^verbatim>\<open>TypeError\<close> of reading a property of \<^verbatim>\<open>null\<close> or \<^verbatim>\<open>undefined\<close>.
\<close>

datatype exn = TypeError

text \<open>
  \<^verbatim>\<open>v.name\<close> for the property names the program reads from a request body
  (\<^verbatim>\<open>turnstile_token\<close>, \<^verbatim>\<open>message\<close>, \<^verbatim>\<open>subject\<close>, \<^verbatim>\<open>metadata\<close>): the property of an object,
  \<^verbatim>\<open>undefined\<close> on an object without it and on a number, boolean, string or array (none
  of which has or inherits a property of these names), and an exception on \<^verbatim>\<open>null\<close> and
  \<^verbatim>\<open>undefined\<close>.
\<close>

fun getProp :: "jsvalue \<Rightarrow> string \<Rightarrow> exn + jsvalue" where
  "getProp JUndefined name = Inl TypeError"
| "getProp JNull name = Inl TypeError"
| "getProp (JObj kvs) name =
     Inr (case map_of kvs name of None \<Rightarrow> JUndefined | Some v \<Rightarrow> v)"
| "getProp v name = Inr JUndefined"

text \<open>The decimal digits of a natural number, and the number that decimal digits denote.\<close>

function nat_digits :: "nat \<Rightarrow> string" where
  "nat_digits n =
     (if n < 10 then [''0123456789'' ! n]
      else nat_digits (n div 10) @ [''0123456789'' ! (n mod 10)])"
  by pat_completeness auto
termination
  by (relation "measure (\<lambda>n. n)") auto

declare nat_digits.simps [simp del]

definition isDigit :: "char \<Rightarrow> bool" where
  "isDigit c = (c \<in> set ''0123456789'')"

definition digits_nat :: "string \<Rightarrow> nat" where
  "digits_nat s = foldl (\<lambda>n c. 10 * n + (of_char c - 48)) 0 s"

text \<open>
  A property key is an array index when it is the decimal text, without a sign or a
  superfluous leading zero, of an integer from 0 to \<open>2\<^sup>3\<^sup>2 - 2\<close>.
\<close>

definition isArrayIndex :: "string \<Rightarrow> bool" where
  "isArrayIndex k =
     (k \<noteq> [] \<and> list_all isDigit k \<and> nat_digits (digits_nat k) = k \<and> digits_nat k < 4294967295)"

text \<open>
  The order in which the own properties of an object are gone through, by
  \<^verbatim>\<open>Object.entries\<close> and by \<^verbatim>\<open>JSON.stringify\<close> alike: first the keys that are array indices,
  in ascending numeric order, then the other keys in the order of their creation.
\<close>

definition ownPropertyOrder :: "(string \<times> 'a) list \<Rightarrow> (string \<times> 'a) list" where
  "ownPropertyOrder props =
     sort_key (\<lambda>p. digits_nat (fst p)) (filter (\<lambda>p. isArrayIndex (fst p)) props)
     @ filter (\<lambda>p. \<not> isArrayIndex (fst p)) props"

definition Boolean_toString :: "bool \<Rightarrow> string" where
  "Boolean_toString b = (if b then ''true'' else ''false'')"

text \<open>
  \<^verbatim>\<open>JSON.stringify\<close>. A string is quoted with the quote, the backslash and the control
  characters escaped; a number is its text, and \<^verbatim>\<open>null\<close> when it is not finite;
  \<^verbatim>\<open>undefined\<close> has no text (\<^term>\<open>None\<close>), is left out of an object and is \<^verbatim>\<open>null\<close> in an
  array. \<open>SerializeJSONMembers\<close> gives the members of an object that have a text, each as
  its key and the text of its value, in the order of creation; they are written in the
  order of \<open>ownPropertyOrder\<close>.
\<close>

definition QuoteJSONChar :: "char \<Rightarrow> string" where
  "QuoteJSONChar c =
     (if c = CHR 0x08 then [CHR 0x5C, CHR ''b'']
      else if c = CHR 0x09 then [CHR 0x5C, CHR ''t'']
      else if c = CHR 0x0A then [CHR 0x5C, CHR ''n'']
      else if c = CHR 0x0C then [CHR 0x5C, CHR ''f'']
      else if c = CHR 0x0D then [CHR 0x5C, CHR ''r'']
      else if c = CHR 0x22 then [CHR 0x5C, CHR 0x22]
      else if c = CHR 0x5C then [CHR 0x5C, CHR 0x5C]
      else if (of_char c :: nat) < 32
        then [CHR 0x5C, CHR ''u'', CHR ''0'', CHR ''0'',
              ''0123456789abcdef'' ! (of_char c div 16), ''0123456789abcdef'' ! (of_char c mod 16)]
      else [c])"

definition QuoteJSONString :: "string \<Rightarrow> string" where
  "QuoteJSONString s = CHR 0x22 # concat (map QuoteJSONChar s) @ [CHR 0x22]"

definition memberText :: "string \<times> string \<Rightarrow> string" where
  "memberText member = QuoteJSONString (fst member) @ '':'' @ snd member"

definition SerializeJSONNumber :: "number \<Rightarrow> string" where
  "SerializeJSONNumber n =
     (if String_of_number n = ''NaN'' \<or> String_of_number n = ''Infinity''
         \<or> String_of_number n = ''-Infinity''
      then ''null'' else String_of_number n)"

fun SerializeJSONProperty :: "jsvalue \<Rightarrow> string option"
  and SerializeJSONElements :: "jsvalue list \<Rightarrow> string list"
  and SerializeJSONMembers :: "(string \<times> jsvalue) list \<Rightarrow> (string \<times> string) list" where
  "SerializeJSONProperty JUndefined = None"
| "SerializeJSONProperty JNull = Some ''null''"
| "SerializeJSONProperty (JBool b) = Some (Boolean_toString b)"
| "SerializeJSONProperty (JNum n) = Some (SerializeJSONNumber n)"
| "SerializeJSONProperty (JStr s) = Some (QuoteJSONString s)"
| "SerializeJSONProperty (JArr xs) = Some (''['' @ join (SerializeJSONElements xs) '','' @ '']'')"
| "SerializeJSONProperty (JObj kvs) =
     Some (''{'' @ join (map memberText (ownPropertyOrder (SerializeJSONMembers kvs))) '','' @ ''}'')"
| "SerializeJSONElements [] = []"
| "SerializeJSONElements (x # xs) =
     (case SerializeJSONProperty x of None \<Rightarrow> ''null'' | Some t \<Rightarrow> t) # SerializeJSONElements xs"
| "SerializeJSONMembers [] = []"
| "SerializeJSONMembers ((k, v) # kvs) =
     (case SerializeJSONProperty v of
        None \<Rightarrow> SerializeJSONMembers kvs
      | Some t \<Rightarrow> (k, t) # SerializeJSONMembers kvs)"

text \<open>\<^verbatim>\<open>JSON.stringify\<close> of an array and of an object, which is always a string.\<close>

definition SerializeJSONArray :: "jsvalue list \<Rightarrow> string" where
  "SerializeJSONArray xs = ''['' @ join (SerializeJSONElements xs) '','' @ '']''"

definition SerializeJSONObject :: "(string \<times> jsvalue) list \<Rightarrow> string" where
  "SerializeJSONObject kvs =
     ''{'' @ join (map memberText (ownPropertyOrder (SerializeJSONMembers kvs))) '','' @ ''}''"

text \<open>
  \<^verbatim>\<open>Object.entries\<close> of a value whose \<^verbatim>\<open>typeof\<close> is \<^verbatim>\<open>object\<close>: the properties of an
  object in the order of \<open>ownPropertyOrder\<close>, and the elements of an array under their
  indices.
\<close>

fun Object_entries :: "jsvalue \<Rightarrow> (string \<times> jsvalue) list" where
  "Object_entries (JObj kvs) = ownPropertyOrder kvs"
| "Object_entries (JArr xs) = zip (map nat_digits [0..<length xs]) xs"
| "Object_entries v = []"

section \<open>Configuration, requests and responses\<close>

text \<open>The environment: a variable that is not set is \<^term>\<open>None\<close>.\<close>

record Env =
  TURNSTILE_SECRET_KEY :: "string option"
  TELEGRAM_BOT_TOKEN :: "string option"
  TELEGRAM_CHAT_ID :: "string option"
  API_KEY :: "string option"
  ALLOWED_ORIGINS :: "string option"

text \<open>
  A request: its method, the path of its URL, its headers as \<^verbatim>\<open>request.headers.get(name)\<close>
  returns them under the names the program asks for (\<^term>\<open>None\<close> for \<^verbatim>\<open>null\<close>), and what
  \<^verbatim>\<open>request.json()\<close> yields: the parsed body, or \<^term>\<open>None\<close> when it throws because the body
  is not JSON text.
\<close>

record Request =
  http_method :: string
  pathname :: string
  headers :: "string \<Rightarrow> string option"
  json :: "jsvalue option"

text \<open>
  A response: the status, the headers in the order they were set, under the names the
  program writes, and the body (\<^term>\<open>None\<close> for the \<^verbatim>\<open>null\<close> body).
\<close>

record Response =
  status :: nat
  response_headers :: "(string \<times> string) list"
  body :: "string option"

text \<open>\<^verbatim>\<open>headers.set(name, value)\<close>, which is also how an object spread overrides a key.\<close>

fun headers_set :: "(string \<times> string) list \<Rightarrow> string \<Rightarrow> string \<Rightarrow> (string \<times> string) list" where
  "headers_set [] name v = [(name, v)]"
| "headers_set ((k, x) # hs) name v =
     (if k = name then (k, v) # hs else (k, x) # headers_set hs name v)"

definition jsonResponse ::
  "(string \<times> jsvalue) list \<Rightarrow> nat \<Rightarrow> (string \<times> string) list \<Rightarrow> Response" where
  "jsonResponse b st hs =
     \<lparr>status = st,
      response_headers =
        foldl (\<lambda>acc (k, v). headers_set acc k v) [(''Content-Type'', ''application/json'')] hs,
      body = Some (SerializeJSONObject b)\<rparr>"

definition successResponse :: "string \<Rightarrow> jsvalue \<Rightarrow> Response" where
  "successResponse message data =
     jsonResponse [(''success'', JBool True), (''message'', JStr message), (''data'', data)] 200 []"

definition errorResponse :: "string \<Rightarrow> nat \<Rightarrow> Response" where
  "errorResponse message st =
     jsonResponse
       [(''success'', JBool False), (''message'', JStr message), (''error'', JStr message)] st []"

definition withCors :: "Response \<Rightarrow> string \<Rightarrow> Response" where
  "withCors response origin =
     \<lparr>status = status response,
      response_headers =
        headers_set
          (headers_set
            (headers_set
              (headers_set (response_headers response) ''Access-Control-Allow-Origin'' origin)
              ''Access-Control-Allow-Methods'' ''GET, POST, OPTIONS'')
            ''Access-Control-Allow-Headers'' ''Content-Type, X-API-Key, Authorization'')
          ''Access-Control-Max-Age'' ''86400'',
      body = body response\<rparr>"

section \<open>The API-key gate\<close>

record AuthResult =
  auth_success :: bool
  auth_error :: "string option"

text \<open>
  The loop of \<^verbatim>\<open>secureCompare\<close>: \<open>i\<close> is the loop index and \<open>result\<close> the accumulator;
  \<open>n\<close>, which the source does not have, counts the iterations, so that the number of
  characters scanned can be stated.
\<close>

function secureCompare_loop :: "string \<Rightarrow> string \<Rightarrow> nat \<Rightarrow> int \<Rightarrow> nat \<Rightarrow> int \<times> nat" where
  "secureCompare_loop a b i result n =
     (if i < length a
      then secureCompare_loop a b (Suc i)
             (or result (xor (charCodeAt a i) (charCodeAt b i))) (Suc n)
      else (result, n))"
  by pat_completeness auto
termination
  by (relation "measure (\<lambda>(a, b, i, result, n). length a - i)") auto

declare secureCompare_loop.simps [simp del]

text \<open>The comparison with the number of characters it scanned.\<close>

definition secureCompare_scan :: "string \<Rightarrow> string \<Rightarrow> bool \<times> nat" where
  "secureCompare_scan a b =
     (if length a \<noteq> length b then (False, 0)
      else (case secureCompare_loop a b 0 0 0 of (result, n) \<Rightarrow> (result = 0, n)))"

definition secureCompare :: "string \<Rightarrow> string \<Rightarrow> bool" where
  "secureCompare a b = fst (secureCompare_scan a b)"

definition MISSING_KEY :: string where
  "MISSING_KEY = ''Missing API key. Provide via X-API-Key header or Authorization: Bearer <key>''"

definition INVALID_KEY :: string where
  "INVALID_KEY = ''Invalid API key''"

text \<open>The candidate key: the constant \<^verbatim>\<open>apiKey\<close> of \<^verbatim>\<open>validateApiKey\<close>.\<close>

definition apiKey :: "Request \<Rightarrow> string option" where
  "apiKey request =
     or_else (headers request ''X-API-Key'')
       (map_option (\<lambda>v. replace v ''Bearer '' []) (headers request ''Authorization''))"

definition validateApiKey :: "Request \<Rightarrow> Env \<Rightarrow> AuthResult" where
  "validateApiKey request env =
     (case API_KEY env of
        None \<Rightarrow> \<lparr>auth_success = True, auth_error = None\<rparr>
      | Some key \<Rightarrow>
          if key = [] then \<lparr>auth_success = True, auth_error = None\<rparr>
          else (case apiKey request of
                  None \<Rightarrow> \<lparr>auth_success = False, auth_error = Some MISSING_KEY\<rparr>
                | Some k \<Rightarrow>
                    if k = [] then \<lparr>auth_success = False, auth_error = Some MISSING_KEY\<rparr>
                    else if \<not> secureCompare k key
                      then \<lparr>auth_success = False, auth_error = Some INVALID_KEY\<rparr>
                    else \<lparr>auth_success = True, auth_error = None\<rparr>))"

section \<open>The challenge verifier\<close>

text \<open>
  An outbound call: a form posted to a URL (the fields as they were appended), or a JSON
  text posted to a URL.
\<close>

datatype outbound =
    FormPost string "(string \<times> jsvalue) list"
  | JsonPost string string

text \<open>
  What awaiting an outbound call and its \<^verbatim>\<open>response.json()\<close> gives: an exception (with
  its message when it is an \<^verbatim>\<open>Error\<close>), or the reply.
\<close>

datatype 'a fetch_result = Rejected "string option" | Resolved 'a

text \<open>The reply of the verification service; of its fields the program reads these two.\<close>

record TurnstileResponse =
  ts_success :: bool
  ts_error_codes :: "string list option"

text \<open>The reply of the messaging provider: the HTTP status is in the 200s, and the body.\<close>

record TelegramResponse =
  http_ok :: bool
  tg_ok :: bool
  tg_description :: "string option"

text \<open>The network: the reply each collaborator gives to a call.\<close>

record Net =
  siteverify :: "outbound \<Rightarrow> TurnstileResponse fetch_result"
  sendMessage :: "outbound \<Rightarrow> TelegramResponse fetch_result"

text \<open>The outcome of the verification; its \<^verbatim>\<open>details\<close>, which nothing reads, are left out.\<close>

record TurnstileResult =
  tr_success :: bool
  tr_error :: "string option"

definition TURNSTILE_VERIFY_URL :: string where
  "TURNSTILE_VERIFY_URL = ''https://challenges.cloudflare.com/turnstile/v0/siteverify''"

definition ERROR_CODES :: "(string \<times> string) list" where
  "ERROR_CODES =
     [(''missing-input-secret'', ''The secret parameter was not passed''),
      (''invalid-input-secret'', ''The secret parameter was invalid or did not exist''),
      (''missing-input-response'', ''The response parameter was not passed''),
      (''invalid-input-response'', ''The response parameter is invalid or has expired''),
      (''invalid-widget-id'',
         ''The widget ID extracted from the parsed site secret key was invalid''),
      (''invalid-parsed-secret'',
         ''The secret extracted from the parsed site secret key was invalid''),
      (''bad-request'', ''The request was rejected because it was malformed''),
      (''timeout-or-duplicate'', ''The response parameter has already been validated before''),
      (''internal-error'', ''An internal error happened while validating the response'')]"

text \<open>
  The table is a plain object, so \<^verbatim>\<open>ERROR_CODES[code]\<close> finds, besides the nine entries of
  the table, the properties that every object inherits from \<^verbatim>\<open>Object.prototype\<close>: eleven
  functions, listed here with the names they carry, and the accessor \<^verbatim>\<open>__proto__\<close>, which
  yields the prototype object.
\<close>

definition Object_prototype_functions :: "(string \<times> string) list" where
  "Object_prototype_functions =
     [(''constructor'', ''Object''),
      (''__defineGetter__'', ''__defineGetter__''),
      (''__defineSetter__'', ''__defineSetter__''),
      (''hasOwnProperty'', ''hasOwnProperty''),
      (''__lookupGetter__'', ''__lookupGetter__''),
      (''__lookupSetter__'', ''__lookupSetter__''),
      (''isPrototypeOf'', ''isPrototypeOf''),
      (''propertyIsEnumerable'', ''propertyIsEnumerable''),
      (''toString'', ''toString''),
      (''valueOf'', ''valueOf''),
      (''toLocaleString'', ''toLocaleString'')]"

datatype property = OwnString string | InheritedFunction string | InheritedObject | NoProperty

definition ERROR_CODES_get :: "string \<Rightarrow> property" where
  "ERROR_CODES_get code =
     (case map_of ERROR_CODES code of
        Some d \<Rightarrow> OwnString d
      | None \<Rightarrow>
          (case map_of Object_prototype_functions code of
             Some f \<Rightarrow> InheritedFunction f
           | None \<Rightarrow> if code = ''__proto__'' then InheritedObject else NoProperty))"

text \<open>A code that names an inherited property.\<close>

definition inheritedKey :: "string \<Rightarrow> bool" where
  "inheritedKey code = (map_of Object_prototype_functions code \<noteq> None \<or> code = ''__proto__'')"

text \<open>
  The text of one code: the text that \<^verbatim>\<open>join\<close> gives the element
  \<^verbatim>\<open>ERROR_CODES[code] || code\<close>. An inherited function or object is truthy, so it is the
  element itself, and its text is what the engine of the runtime prints for a built-in
  function and for a plain object.
\<close>

definition describeCode :: "string \<Rightarrow> string" where
  "describeCode code =
     (case ERROR_CODES_get code of
        OwnString d \<Rightarrow> or_default (Some d) code
      | InheritedFunction f \<Rightarrow> ''function '' @ f @ ''() { [native code] }''
      | InheritedObject \<Rightarrow> ''[object Object]''
      | NoProperty \<Rightarrow> code)"

definition getErrorMessage :: "string list option \<Rightarrow> string" where
  "getErrorMessage codes =
     (case codes of
        None \<Rightarrow> ''Unknown verification error''
      | Some cs \<Rightarrow>
          if length cs = 0 then ''Unknown verification error''
          else join (map describeCode cs) ''; '')"

text \<open>
  \<^verbatim>\<open>verifyTurnstile\<close> returns its outcome and the outbound calls it made. The token is
  whatever value the body carried.
\<close>

definition verifyTurnstile ::
  "jsvalue \<Rightarrow> Env \<Rightarrow> string option \<Rightarrow> Net \<Rightarrow> TurnstileResult \<times> outbound list" where
  "verifyTurnstile token env remoteIp net =
     (if \<not> truthy_str (TURNSTILE_SECRET_KEY env)
        then (\<lparr>tr_success = False, tr_error = Some ''Turnstile secret key not configured''\<rparr>, [])
      else if \<not> truthy token
        then (\<lparr>tr_success = False, tr_error = Some ''Missing Turnstile token''\<rparr>, [])
      else
        (let formData =
               [(''secret'', js_of (TURNSTILE_SECRET_KEY env)), (''response'', token)]
               @ (if truthy_str remoteIp then [(''remoteip'', js_of remoteIp)] else []);
             call = FormPost TURNSTILE_VERIFY_URL formData
         in (case siteverify net call of
               Rejected e \<Rightarrow>
                 (\<lparr>tr_success = False,
                   tr_error = Some (case e of None \<Rightarrow> ''Failed to verify Turnstile token''
                                    | Some m \<Rightarrow> m)\<rparr>, [call])
             | Resolved data \<Rightarrow>
                 if \<not> ts_success data
                   then (\<lparr>tr_success = False,
                          tr_error = Some (getErrorMessage (ts_error_codes data))\<rparr>, [call])
                 else (\<lparr>tr_success = True, tr_error = None\<rparr>, [call]))))"

section \<open>The message formatter and the notification sender\<close>

text \<open>The payload as the handler builds it: each field is whatever value the body carried.\<close>

record ActionPayload =
  message :: jsvalue
  subject :: jsvalue
  metadata :: jsvalue

text \<open>The outcome of a send; its \<^verbatim>\<open>data\<close>, which the handler never reads, are left out.\<close>

record ActionResult =
  ar_success :: bool
  ar_message :: string

record TelegramAction =
  botToken :: "string option"
  chatId :: "string option"
  apiUrl :: string

text \<open>The constructor; a template literal prints a missing token as \<^verbatim>\<open>undefined\<close>.\<close>

definition new_TelegramAction :: "string option \<Rightarrow> string option \<Rightarrow> TelegramAction" where
  "new_TelegramAction token chat =
     \<lparr>botToken = token, chatId = chat,
      apiUrl = ''https://api.telegram.org/bot''
               @ (case token of None \<Rightarrow> ''undefined'' | Some t \<Rightarrow> t)\<rparr>"

definition validate :: "TelegramAction \<Rightarrow> bool" where
  "validate a = (truthy_str (botToken a) \<and> truthy_str (chatId a))"

definition escapeHtml :: "string \<Rightarrow> string" where
  "escapeHtml text =
     replace_all (replace_all (replace_all text CHR ''&'' ''&amp;'') CHR ''<'' ''&lt;'')
       CHR ''>'' ''&gt;''"

text \<open>
  The subject and the message contribute a field when they are strings that are not
  blank.
\<close>

fun subjectField :: "jsvalue \<Rightarrow> string list" where
  "subjectField (JStr s) =
     (if s \<noteq> [] \<and> trim s \<noteq> [] then [''<b>'' @ escapeHtml (trim s) @ ''</b>''] else [])"
| "subjectField v = []"

fun messageField :: "jsvalue \<Rightarrow> string list" where
  "messageField (JStr s) = (if s \<noteq> [] \<and> trim s \<noteq> [] then [escapeHtml (trim s)] else [])"
| "messageField v = []"

text \<open>The text \<^verbatim>\<open>str\<close> of a metadata value, by the type of the value.\<close>

fun metadataStr :: "jsvalue \<Rightarrow> string" where
  "metadataStr (JStr s) = escapeHtml (trim s)"
| "metadataStr (JNum n) = escapeHtml (String_of_number n)"
| "metadataStr (JBool b) = escapeHtml (Boolean_toString b)"
| "metadataStr JUndefined = []"
| "metadataStr JNull = []"
| "metadataStr (JArr xs) = escapeHtml (SerializeJSONArray xs)"
| "metadataStr (JObj kvs) = escapeHtml (SerializeJSONObject kvs)"

text \<open>The loop over the entries of the metadata: the fields it pushes, in order.\<close>

fun metadataFields :: "(string \<times> jsvalue) list \<Rightarrow> string list" where
  "metadataFields [] = []"
| "metadataFields ((key, v) # entries) =
     (if metadataStr v \<noteq> []
      then (''<b>'' @ escapeHtml key @ '':</b> '' @ metadataStr v) # metadataFields entries
      else metadataFields entries)"

text \<open>
  The metadata values that contribute no field, stated on the value: \<^verbatim>\<open>null\<close>,
  \<^verbatim>\<open>undefined\<close>, and a string that is empty once trimmed.
\<close>

fun skipped_value :: "jsvalue \<Rightarrow> bool" where
  "skipped_value JUndefined = True"
| "skipped_value JNull = True"
| "skipped_value (JStr s) = (trim s = [])"
| "skipped_value v = False"

text \<open>The field of one metadata entry.\<close>

definition metadataField :: "string \<times> jsvalue \<Rightarrow> string" where
  "metadataField entry = ''<b>'' @ escapeHtml (fst entry) @ '':</b> '' @ metadataStr (snd entry)"

fun typeof_object :: "jsvalue \<Rightarrow> bool" where
  "typeof_object JNull = True"
| "typeof_object (JArr xs) = True"
| "typeof_object (JObj kvs) = True"
| "typeof_object v = False"

definition formatMessage :: "ActionPayload \<Rightarrow> string" where
  "formatMessage payload =
     join
       (subjectField (subject payload) @ messageField (message payload)
        @ (if truthy (metadata payload) \<and> typeof_object (metadata payload)
           then metadataFields (Object_entries (metadata payload)) else []))
       [CHR 0x0A]"

text \<open>\<^verbatim>\<open>execute\<close> returns its outcome and the outbound calls it made.\<close>

definition execute :: "TelegramAction \<Rightarrow> ActionPayload \<Rightarrow> Net \<Rightarrow> ActionResult \<times> outbound list" where
  "execute a payload net =
     (if \<not> validate a
        then (\<lparr>ar_success = False,
               ar_message = ''Telegram action is not properly configured''\<rparr>, [])
      else
        (let call = JsonPost (apiUrl a @ ''/sendMessage'')
               (SerializeJSONObject
                  [(''chat_id'', js_of (chatId a)),
                   (''text'', JStr (formatMessage payload)),
                   (''parse_mode'', JStr ''HTML''),
                   (''disable_web_page_preview'', JBool True)])
         in (case sendMessage net call of
               Rejected e \<Rightarrow>
                 (\<lparr>ar_success = False,
                   ar_message = (case e of None \<Rightarrow> ''Unknown error occurred'' | Some m \<Rightarrow> m)\<rparr>,
                  [call])
             | Resolved data \<Rightarrow>
                 if \<not> http_ok data \<or> \<not> tg_ok data
                   then (\<lparr>ar_success = False,
                          ar_message = or_default (tg_description data)
                                         ''Failed to send Telegram message''\<rparr>, [call])
                 else (\<lparr>ar_success = True, ar_message = ''Notification sent successfully''\<rparr>,
                       [call]))))"

section \<open>The request router\<close>

text \<open>The two constants of \<^verbatim>\<open>getAllowedOrigin\<close>, and the function.\<close>

definition requestOrigin :: "Request \<Rightarrow> string" where
  "requestOrigin request = or_default (headers request ''Origin'') ''*''"

definition allowedOrigins :: "Env \<Rightarrow> string list" where
  "allowedOrigins env =
     (case ALLOWED_ORIGINS env of
        None \<Rightarrow> [''*'']
      | Some s \<Rightarrow> map trim (split s CHR '',''))"

definition getAllowedOrigin :: "Request \<Rightarrow> Env \<Rightarrow> string" where
  "getAllowedOrigin request env =
     (if ''*'' \<in> set (allowedOrigins env) then ''*''
      else if requestOrigin request \<in> set (allowedOrigins env) then requestOrigin request
      else (case allowedOrigins env of
              [] \<Rightarrow> ''*''
            | first # others \<Rightarrow> if first \<noteq> [] then first else ''*''))"

definition handleOptions :: "Request \<Rightarrow> Env \<Rightarrow> Response" where
  "handleOptions request env =
     \<lparr>status = 204,
      response_headers =
        [(''Access-Control-Allow-Origin'', getAllowedOrigin request env),
         (''Access-Control-Allow-Methods'', ''GET, POST, OPTIONS''),
         (''Access-Control-Allow-Headers'', ''Content-Type, X-API-Key, Authorization''),
         (''Access-Control-Max-Age'', ''86400'')],
      body = None\<rparr>"

text \<open>The health report; \<open>now\<close> is the text of the current time.\<close>

definition handleHealthCheck :: "Env \<Rightarrow> string \<Rightarrow> Response" where
  "handleHealthCheck env now =
     successResponse ''Service is healthy''
       (JObj [(''status'', JStr ''healthy''),
              (''timestamp'', JStr now),
              (''config'',
               JObj [(''turnstile'', JBool (truthy_str (TURNSTILE_SECRET_KEY env))),
                     (''telegram'',
                      JBool (truthy_str (TELEGRAM_BOT_TOKEN env)
                             \<and> truthy_str (TELEGRAM_CHAT_ID env))),
                     (''apiKeyRequired'', JBool (truthy_str (API_KEY env)))])])"

text \<open>
  \<^verbatim>\<open>handleNotification\<close> returns a response or throws, and makes outbound calls. The
  reads of \<^verbatim>\<open>body.turnstile_token\<close> and \<^verbatim>\<open>body.message\<close> stand outside every \<^verbatim>\<open>try\<close>
  block, so their exception leaves the handler.
\<close>

definition handleNotification :: "Request \<Rightarrow> Env \<Rightarrow> Net \<Rightarrow> (exn + Response) \<times> outbound list" where
  "handleNotification request env net =
     (let authResult = validateApiKey request env in
      if \<not> auth_success authResult
        then (Inr (errorResponse (or_default (auth_error authResult) ''Authentication failed'') 401),
              [])
      else
        (case json request of
           None \<Rightarrow> (Inr (errorResponse ''Invalid JSON body'' 400), [])
         | Some b \<Rightarrow>
             (case getProp b ''turnstile_token'' of
                Inl e \<Rightarrow> (Inl e, [])
              | Inr token \<Rightarrow>
                  if \<not> truthy token
                    then (Inr (errorResponse ''Missing required field: turnstile_token'' 400), [])
                  else
                    (case getProp b ''message'' of
                       Inl e \<Rightarrow> (Inl e, [])
                     | Inr msg \<Rightarrow>
                         if \<not> truthy msg
                           then (Inr (errorResponse ''Missing required field: message'' 400), [])
                         else
                           (let clientIp = or_else (headers request ''CF-Connecting-IP'') None;
                                (turnstileResult, calls) = verifyTurnstile token env clientIp net
                            in if \<not> tr_success turnstileResult
                                 then (Inr (errorResponse
                                              (or_default (tr_error turnstileResult)
                                                 ''Turnstile verification failed'') 403),
                                       calls)
                               else
                                 (let action = new_TelegramAction (TELEGRAM_BOT_TOKEN env)
                                                 (TELEGRAM_CHAT_ID env)
                                  in if \<not> validate action
                                       then (Inr (errorResponse
                                                    ''Telegram action not properly configured''
                                                    500),
                                             calls)
                                     else
                                       (case (getProp b ''subject'', getProp b ''metadata'') of
                                          (Inr subj, Inr meta) \<Rightarrow>
                                            (let payload = \<lparr>message = msg, subject = subj,
                                                            metadata = meta\<rparr>;
                                                 (result, calls') = execute action payload net
                                             in if \<not> ar_success result
                                                  then (Inr (errorResponse (ar_message result) 500),
                                                        calls @ calls')
                                                else (Inr (successResponse (ar_message result)
                                                             JUndefined),
                                                      calls @ calls'))
                                        | (Inl e, r) \<Rightarrow> (Inl e, calls)
                                        | (Inr subj, Inl e) \<Rightarrow> (Inl e, calls))))))))"

text \<open>The route of a request that is not a preflight, before the CORS headers are added.\<close>

definition route :: "Request \<Rightarrow> Env \<Rightarrow> Net \<Rightarrow> string \<Rightarrow> (exn + Response) \<times> outbound list" where
  "route request env net now =
     (if pathname request = ''/'' \<or> pathname request = ''/health''
        then (Inr (handleHealthCheck env now), [])
      else if pathname request = ''/notify'' \<or> pathname request = ''/api/notify''
        then (if http_method request \<noteq> ''POST''
                then (Inr (errorResponse ''Method not allowed. Use POST.'' 405), [])
              else handleNotification request env net)
      else (Inr (errorResponse ''Not found'' 404), []))"

definition handleRequest :: "Request \<Rightarrow> Env \<Rightarrow> Net \<Rightarrow> string \<Rightarrow> (exn + Response) \<times> outbound list" where
  "handleRequest request env net now =
     (if http_method request = ''OPTIONS'' then (Inr (handleOptions request env), [])
      else
        (case route request env net now of
           (Inl e, calls) \<Rightarrow> (Inl e, calls)
         | (Inr response, calls) \<Rightarrow>
             (Inr (withCors response (getAllowedOrigin request env)), calls)))"

text \<open>
  The entry point of the worker: the catch-all turns an exception of \<^verbatim>\<open>handleRequest\<close>
  into a response (and logs it, which is not modelled).
\<close>

definition fetch :: "Request \<Rightarrow> Env \<Rightarrow> Net \<Rightarrow> string \<Rightarrow> Response \<times> outbound list" where
  "fetch request env net now =
     (case handleRequest request env net now of
        (Inr response, calls) \<Rightarrow> (response, calls)
      | (Inl e, calls) \<Rightarrow> (errorResponse ''Internal server error'' 500, calls))"

section \<open>Concrete inputs\<close>

text \<open>
  An environment with nothing set, a request with no header and no JSON body, and a
  network on which every call fails; the examples below update them.
\<close>

definition no_env :: Env where
  "no_env = \<lparr>TURNSTILE_SECRET_KEY = None, TELEGRAM_BOT_TOKEN = None, TELEGRAM_CHAT_ID = None,
             API_KEY = None, ALLOWED_ORIGINS = None\<rparr>"

definition bare_request :: Request where
  "bare_request = \<lparr>http_method = ''POST'', pathname = ''/notify'', headers = (\<lambda>name. None),
                   json = None\<rparr>"

definition dead_net :: Net where
  "dead_net = \<lparr>siteverify = (\<lambda>call. Rejected None), sendMessage = (\<lambda>call. Rejected None)\<rparr>"

section \<open>Properties of the credential comparator\<close>

lemma xor_int_eq_0_iff: "xor (x::int) y = 0 \<longleftrightarrow> x = y"
proof
  assume "xor x y = 0"
  then have "xor (xor x y) y = xor 0 y" by simp
  then show "x = y" by (simp add: xor.assoc)
qed simp

lemma forall_from_split:
  "i < n \<Longrightarrow>
   (\<forall>j. i \<le> j \<and> j < n \<longrightarrow> P j) \<longleftrightarrow> P i \<and> (\<forall>j. Suc i \<le> j \<and> j < n \<longrightarrow> P j)"
proof
  assume "i < n" and "\<forall>j. i \<le> j \<and> j < n \<longrightarrow> P j"
  then show "P i \<and> (\<forall>j. Suc i \<le> j \<and> j < n \<longrightarrow> P j)" by auto
next
  assume h: "P i \<and> (\<forall>j. Suc i \<le> j \<and> j < n \<longrightarrow> P j)"
  show "\<forall>j. i \<le> j \<and> j < n \<longrightarrow> P j"
  proof (intro allI impI)
    fix j assume "i \<le> j \<and> j < n"
    then show "P j" using h by (cases "j = i") auto
  qed
qed

text \<open>
  The accumulator ends at 0 exactly when it started at 0 and the two strings agree from
  the index on.
\<close>

lemma secureCompare_loop_fst:
  "length a = length b \<Longrightarrow>
   fst (secureCompare_loop a b i r n) = 0 \<longleftrightarrow>
     r = 0 \<and> (\<forall>j. i \<le> j \<and> j < length a \<longrightarrow> a ! j = b ! j)"
proof (induction a b i r n rule: secureCompare_loop.induct)
  case (1 a b i result n)
  show ?case
  proof (cases "i < length a")
    case True
    have x: "xor (charCodeAt a i) (charCodeAt b i) = 0 \<longleftrightarrow> a ! i = b ! i"
      using True "1.prems" by (simp add: charCodeAt_def xor_int_eq_0_iff)
    have "fst (secureCompare_loop a b i result n) =
          fst (secureCompare_loop a b (Suc i)
                 (or result (xor (charCodeAt a i) (charCodeAt b i))) (Suc n))"
      using True by (subst secureCompare_loop.simps) simp
    then show ?thesis
      using "1.IH"[OF True "1.prems"]
      by (simp only: or_eq_0_iff x forall_from_split[OF True]) blast
  next
    case False
    then show ?thesis by (subst secureCompare_loop.simps) auto
  qed
qed

text \<open>The loop runs once for every index from \<open>i\<close> to the end of the first string.\<close>

lemma secureCompare_loop_snd:
  "snd (secureCompare_loop a b i r n) = n + (length a - i)"
proof (induction a b i r n rule: secureCompare_loop.induct)
  case (1 a b i result n)
  show ?case
  proof (cases "i < length a")
    case True
    then show ?thesis using "1.IH"[OF True]
      by (subst secureCompare_loop.simps) simp
  next
    case False
    then show ?thesis by (subst secureCompare_loop.simps) simp
  qed
qed

lemma secureCompare_eq: "secureCompare a b \<longleftrightarrow> a = b"
proof (cases "length a = length b")
  case True
  then show ?thesis
    using secureCompare_loop_fst[OF True, of 0 0 0]
    by (auto simp: secureCompare_def secureCompare_scan_def split: prod.splits
          intro: nth_equalityI)
next
  case False
  then show ?thesis by (auto simp: secureCompare_def secureCompare_scan_def)
qed

lemma secureCompare_scan_count:
  "length a = length b \<Longrightarrow> snd (secureCompare_scan a b) = length a"
  using secureCompare_loop_snd[of a b 0 0 0]
  by (auto simp: secureCompare_scan_def split: prod.splits)

text \<open>
  Claim C6. On two strings of equal length \<^verbatim>\<open>secureCompare\<close> returns true exactly when
  they are equal, after one loop iteration per character; on two strings of different
  lengths it returns false and the loop is not entered: no character is scanned.
\<close>

theorem secureCompare_equal_length_iff_unequal_no_scan:
  "(length a = length b \<longrightarrow>
      (secureCompare a b \<longleftrightarrow> a = b) \<and> snd (secureCompare_scan a b) = length a) \<and>
   (length a \<noteq> length b \<longrightarrow> secureCompare_scan a b = (False, 0) \<and> \<not> secureCompare a b)"
proof (intro conjI impI)
  show "secureCompare a b \<longleftrightarrow> a = b" by (rule secureCompare_eq)
next
  assume "length a = length b"
  then show "snd (secureCompare_scan a b) = length a" by (rule secureCompare_scan_count)
next
  assume "length a \<noteq> length b"
  then show "secureCompare_scan a b = (False, 0)" by (simp add: secureCompare_scan_def)
next
  assume "length a \<noteq> length b"
  then show "\<not> secureCompare a b" by (simp add: secureCompare_def secureCompare_scan_def)
qed

theorem secureCompare_witness:
  "secureCompare ''s3cret'' ''s3cret'' \<and> snd (secureCompare_scan ''s3cret'' ''s3cret'') = 6 \<and>
   \<not> secureCompare ''s3cret'' ''s3creT'' \<and> snd (secureCompare_scan ''s3cret'' ''s3creT'') = 6 \<and>
   secureCompare_scan ''s3cre'' ''s3cret'' = (False, 0)"
  using secureCompare_equal_length_iff_unequal_no_scan[of "''s3cret''" "''s3cret''"]
    secureCompare_equal_length_iff_unequal_no_scan[of "''s3cret''" "''s3creT''"]
    secureCompare_equal_length_iff_unequal_no_scan[of "''s3cre''" "''s3cret''"]
  by simp

section \<open>Properties of the API-key gate\<close>

lemma replace_prefix: "pat \<noteq> [] \<Longrightarrow> replace (pat @ s) pat rep = rep @ s"
  by (cases pat) (simp_all add: startsWith_def)

lemma replace_absent: "\<not> includes_str s pat \<Longrightarrow> replace s pat rep = s"
  by (induction s) auto

lemma startsWith_append_long:
  "length pat \<le> length s \<Longrightarrow> startsWith (s @ t) pat = startsWith s pat"
  by (simp add: startsWith_def)

text \<open>
  The occurrence that \<^verbatim>\<open>replace\<close> removes is the first one: the one before which the
  pattern does not occur (not even overlapping the occurrence itself).
\<close>

lemma replace_first_occurrence:
  "\<not> includes_str (pre @ butlast pat) pat \<Longrightarrow> pat \<noteq> [] \<Longrightarrow>
   replace (pre @ pat @ post) pat rep = pre @ rep @ post"
proof (induction pre)
  case Nil
  then show ?case using replace_prefix[of pat post rep] by simp
next
  case (Cons c pre)
  have len: "length pat \<le> length (c # pre @ butlast pat)" using Cons.prems by simp
  have "pre @ pat @ post = (pre @ butlast pat) @ (last pat # post)"
    using Cons.prems(2) by simp
  then have "c # pre @ pat @ post = (c # pre @ butlast pat) @ (last pat # post)"
    by simp
  then have "startsWith (c # pre @ pat @ post) pat = startsWith (c # pre @ butlast pat) pat"
    using startsWith_append_long[OF len] by (simp only:)
  then have "\<not> startsWith (c # pre @ pat @ post) pat" using Cons.prems by simp
  then show ?case using Cons by simp
qed

lemma replace_shorter:
  "includes_str s pat \<Longrightarrow> pat \<noteq> [] \<Longrightarrow> length (replace s pat []) < length s"
  by (induction s) (auto simp: startsWith_def)

text \<open>\<open>includes_str\<close> is the occurrence of the pattern as a substring.\<close>

lemma includes_str_iff: "includes_str s pat \<longleftrightarrow> (\<exists>pre post. s = pre @ pat @ post)"
proof (induction s)
  case Nil
  then show ?case by auto
next
  case (Cons c s)
  show ?case
  proof
    assume "includes_str (c # s) pat"
    then consider "startsWith (c # s) pat" | "includes_str s pat" by auto
    then show "\<exists>pre post. c # s = pre @ pat @ post"
    proof cases
      case 1
      then have "c # s = [] @ pat @ drop (length pat) (c # s)"
        unfolding startsWith_def by (metis append_Nil append_take_drop_id)
      then show ?thesis by blast
    next
      case 2
      then obtain pre post where "s = pre @ pat @ post" using Cons.IH by blast
      then have "c # s = (c # pre) @ pat @ post" by simp
      then show ?thesis by blast
    qed
  next
    assume "\<exists>pre post. c # s = pre @ pat @ post"
    then obtain pre post where e: "c # s = pre @ pat @ post" by blast
    show "includes_str (c # s) pat"
    proof (cases pre)
      case Nil
      then have "startsWith (c # s) pat" using e by (simp add: startsWith_def)
      then show ?thesis by simp
    next
      case (Cons d pre')
      then have "s = pre' @ pat @ post" using e by simp
      then show ?thesis using Cons.IH by auto
    qed
  qed
qed

lemma validateApiKey_unconfigured:
  "\<not> truthy_str (API_KEY env) \<Longrightarrow>
   validateApiKey request env = \<lparr>auth_success = True, auth_error = None\<rparr>"
  by (auto simp: validateApiKey_def truthy_str_def split: option.splits)

lemma validateApiKey_missing:
  "truthy_str (API_KEY env) \<Longrightarrow> \<not> truthy_str (apiKey request) \<Longrightarrow>
   validateApiKey request env = \<lparr>auth_success = False, auth_error = Some MISSING_KEY\<rparr>"
  by (auto simp: validateApiKey_def truthy_str_def split: option.splits)

lemma validateApiKey_invalid:
  "truthy_str (API_KEY env) \<Longrightarrow> truthy_str (apiKey request) \<Longrightarrow>
   apiKey request \<noteq> API_KEY env \<Longrightarrow>
   validateApiKey request env = \<lparr>auth_success = False, auth_error = Some INVALID_KEY\<rparr>"
  by (auto simp: validateApiKey_def truthy_str_def secureCompare_eq split: option.splits)

lemma validateApiKey_match:
  "truthy_str (API_KEY env) \<Longrightarrow> apiKey request = API_KEY env \<Longrightarrow>
   validateApiKey request env = \<lparr>auth_success = True, auth_error = None\<rparr>"
  by (auto simp: validateApiKey_def truthy_str_def secureCompare_eq split: option.splits)

lemma apiKey_primary:
  "truthy_str (headers request ''X-API-Key'') \<Longrightarrow> apiKey request = headers request ''X-API-Key''"
  by (simp add: apiKey_def or_else_def)

lemma apiKey_secondary:
  "\<not> truthy_str (headers request ''X-API-Key'') \<Longrightarrow>
   apiKey request = map_option (\<lambda>v. replace v ''Bearer '' []) (headers request ''Authorization'')"
  by (simp add: apiKey_def or_else_def)

text \<open>
  Claim C5. With no key configured (unset or empty) the gate succeeds whatever the headers
  are. With a key configured: when the two headers yield no candidate (the candidate is
  missing or empty; in particular when both headers are absent) the gate fails with the
  missing-key error; when they yield a candidate that differs from the configured key it
  fails with the invalid-key error; and when the configured key is the value of
  \<^verbatim>\<open>X-API-Key\<close>, or \<^verbatim>\<open>X-API-Key\<close> is absent or empty and \<^verbatim>\<open>Authorization\<close> is \<^verbatim>\<open>Bearer\<close>,
  a space and the key, it succeeds.
\<close>

theorem validateApiKey_gate:
  "(\<not> truthy_str (API_KEY env) \<longrightarrow>
      validateApiKey request env = \<lparr>auth_success = True, auth_error = None\<rparr>) \<and>
   (truthy_str (API_KEY env) \<and> \<not> truthy_str (apiKey request) \<longrightarrow>
      validateApiKey request env = \<lparr>auth_success = False, auth_error = Some MISSING_KEY\<rparr>) \<and>
   (truthy_str (API_KEY env) \<and> headers request ''X-API-Key'' = None
      \<and> headers request ''Authorization'' = None \<longrightarrow>
      validateApiKey request env = \<lparr>auth_success = False, auth_error = Some MISSING_KEY\<rparr>) \<and>
   (truthy_str (API_KEY env) \<and> truthy_str (apiKey request) \<and> apiKey request \<noteq> API_KEY env \<longrightarrow>
      validateApiKey request env = \<lparr>auth_success = False, auth_error = Some INVALID_KEY\<rparr>) \<and>
   (truthy_str (API_KEY env) \<and> headers request ''X-API-Key'' = API_KEY env \<longrightarrow>
      validateApiKey request env = \<lparr>auth_success = True, auth_error = None\<rparr>) \<and>
   (API_KEY env = Some key \<and> key \<noteq> [] \<and> \<not> truthy_str (headers request ''X-API-Key'')
      \<and> headers request ''Authorization'' = Some (''Bearer '' @ key) \<longrightarrow>
      validateApiKey request env = \<lparr>auth_success = True, auth_error = None\<rparr>)"
proof (intro conjI impI)
  assume "\<not> truthy_str (API_KEY env)"
  then show "validateApiKey request env = \<lparr>auth_success = True, auth_error = None\<rparr>"
    by (rule validateApiKey_unconfigured)
next
  assume "truthy_str (API_KEY env) \<and> \<not> truthy_str (apiKey request)"
  then show "validateApiKey request env = \<lparr>auth_success = False, auth_error = Some MISSING_KEY\<rparr>"
    by (simp add: validateApiKey_missing)
next
  assume h: "truthy_str (API_KEY env) \<and> headers request ''X-API-Key'' = None
      \<and> headers request ''Authorization'' = None"
  then have "\<not> truthy_str (apiKey request)"
    by (simp add: apiKey_def or_else_def truthy_str_def)
  then show "validateApiKey request env = \<lparr>auth_success = False, auth_error = Some MISSING_KEY\<rparr>"
    using h by (simp add: validateApiKey_missing)
next
  assume "truthy_str (API_KEY env) \<and> truthy_str (apiKey request) \<and> apiKey request \<noteq> API_KEY env"
  then show "validateApiKey request env = \<lparr>auth_success = False, auth_error = Some INVALID_KEY\<rparr>"
    by (simp add: validateApiKey_invalid)
next
  assume h: "truthy_str (API_KEY env) \<and> headers request ''X-API-Key'' = API_KEY env"
  then have "apiKey request = API_KEY env" using apiKey_primary[of request] by simp
  then show "validateApiKey request env = \<lparr>auth_success = True, auth_error = None\<rparr>"
    using h by (simp add: validateApiKey_match)
next
  assume h: "API_KEY env = Some key \<and> key \<noteq> [] \<and> \<not> truthy_str (headers request ''X-API-Key'')
      \<and> headers request ''Authorization'' = Some (''Bearer '' @ key)"
  have "replace (''Bearer '' @ key) ''Bearer '' [] = [] @ key"
    by (rule replace_prefix) simp
  then have "apiKey request = API_KEY env" using h apiKey_secondary[of request] by simp
  moreover have "truthy_str (API_KEY env)" using h by (simp add: truthy_str_def)
  ultimately show "validateApiKey request env = \<lparr>auth_success = True, auth_error = None\<rparr>"
    by (rule validateApiKey_match[rotated])
qed

theorem validateApiKey_gate_witness:
  "validateApiKey (bare_request\<lparr>headers := [''X-API-Key'' \<mapsto> ''anything'']\<rparr>) no_env
     = \<lparr>auth_success = True, auth_error = None\<rparr> \<and>
   validateApiKey (bare_request\<lparr>headers := [''Authorization'' \<mapsto> ''Bearer '']\<rparr>)
       (no_env\<lparr>API_KEY := Some ''k3y''\<rparr>)
     = \<lparr>auth_success = False, auth_error = Some MISSING_KEY\<rparr> \<and>
   validateApiKey bare_request (no_env\<lparr>API_KEY := Some ''k3y''\<rparr>)
     = \<lparr>auth_success = False, auth_error = Some MISSING_KEY\<rparr> \<and>
   validateApiKey (bare_request\<lparr>headers := [''Authorization'' \<mapsto> ''Bearer bad'']\<rparr>)
       (no_env\<lparr>API_KEY := Some ''k3y''\<rparr>)
     = \<lparr>auth_success = False, auth_error = Some INVALID_KEY\<rparr> \<and>
   validateApiKey (bare_request\<lparr>headers := [''X-API-Key'' \<mapsto> ''k3y'']\<rparr>)
       (no_env\<lparr>API_KEY := Some ''k3y''\<rparr>)
     = \<lparr>auth_success = True, auth_error = None\<rparr> \<and>
   validateApiKey (bare_request\<lparr>headers := [''Authorization'' \<mapsto> ''Bearer k3y'']\<rparr>)
       (no_env\<lparr>API_KEY := Some ''k3y''\<rparr>)
     = \<lparr>auth_success = True, auth_error = None\<rparr>"
  using
    validateApiKey_gate[where env = no_env
      and request = "bare_request\<lparr>headers := [''X-API-Key'' \<mapsto> ''anything'']\<rparr>"]
    validateApiKey_gate[where env = "no_env\<lparr>API_KEY := Some ''k3y''\<rparr>"
      and request = "bare_request\<lparr>headers := [''Authorization'' \<mapsto> ''Bearer '']\<rparr>"]
    validateApiKey_gate[where env = "no_env\<lparr>API_KEY := Some ''k3y''\<rparr>"
      and request = bare_request]
    validateApiKey_gate[where env = "no_env\<lparr>API_KEY := Some ''k3y''\<rparr>"
      and request = "bare_request\<lparr>headers := [''Authorization'' \<mapsto> ''Bearer bad'']\<rparr>"]
    validateApiKey_gate[where env = "no_env\<lparr>API_KEY := Some ''k3y''\<rparr>"
      and request = "bare_request\<lparr>headers := [''X-API-Key'' \<mapsto> ''k3y'']\<rparr>"]
    validateApiKey_gate[where env = "no_env\<lparr>API_KEY := Some ''k3y''\<rparr>"
      and request = "bare_request\<lparr>headers := [''Authorization'' \<mapsto> ''Bearer k3y'']\<rparr>"
      and key = "''k3y''"]
  by (simp add: no_env_def bare_request_def truthy_str_def apiKey_def or_else_def
        startsWith_def)

lemma validateApiKey_fails_on_shorter:
  assumes "API_KEY env = Some key" and "apiKey request = Some k" and "length k < length key"
  shows "\<not> auth_success (validateApiKey request env)"
proof -
  have "k \<noteq> key" using assms(3) by auto
  then show ?thesis using assms
    by (auto simp: validateApiKey_def secureCompare_eq)
qed

text \<open>
  Claim C10, as amended. With \<^verbatim>\<open>X-API-Key\<close> absent or empty the candidate key is the value
  of \<^verbatim>\<open>Authorization\<close> with the first occurrence of \<^verbatim>\<open>Bearer\<close> and a space removed,
  wherever it stands (a value without an occurrence is the candidate as it is). So the
  bare key authenticates when the key does not contain that text; a key that contains it
  does not authenticate when it is sent bare; and every key, such a key too,
  authenticates when it is sent after the prefix \<^verbatim>\<open>Bearer\<close> and a space.
\<close>

theorem bearer_first_occurrence_removed:
  "(\<not> truthy_str (headers request ''X-API-Key'') \<and> headers request ''Authorization'' = Some a \<longrightarrow>
      apiKey request = Some (replace a ''Bearer '' [])) \<and>
   (\<not> includes_str (pre @ ''Bearer'') ''Bearer '' \<longrightarrow>
      replace (pre @ ''Bearer '' @ post) ''Bearer '' [] = pre @ post) \<and>
   (\<not> includes_str a ''Bearer '' \<longrightarrow> replace a ''Bearer '' [] = a) \<and>
   (API_KEY env = Some key \<and> key \<noteq> [] \<and> \<not> includes_str key ''Bearer ''
      \<and> \<not> truthy_str (headers request ''X-API-Key'')
      \<and> headers request ''Authorization'' = Some key \<longrightarrow>
      validateApiKey request env = \<lparr>auth_success = True, auth_error = None\<rparr>) \<and>
   (API_KEY env = Some key \<and> includes_str key ''Bearer ''
      \<and> \<not> truthy_str (headers request ''X-API-Key'')
      \<and> headers request ''Authorization'' = Some key \<longrightarrow>
      \<not> auth_success (validateApiKey request env)) \<and>
   (API_KEY env = Some key \<and> key \<noteq> []
      \<and> \<not> truthy_str (headers request ''X-API-Key'')
      \<and> headers request ''Authorization'' = Some (''Bearer '' @ key) \<longrightarrow>
      validateApiKey request env = \<lparr>auth_success = True, auth_error = None\<rparr>)"
proof (intro conjI impI)
  assume "\<not> truthy_str (headers request ''X-API-Key'') \<and> headers request ''Authorization'' = Some a"
  then show "apiKey request = Some (replace a ''Bearer '' [])"
    using apiKey_secondary[of request] by simp
next
  assume "\<not> includes_str (pre @ ''Bearer'') ''Bearer ''"
  then have "\<not> includes_str (pre @ butlast ''Bearer '') ''Bearer ''" by simp
  then have "replace (pre @ ''Bearer '' @ post) ''Bearer '' [] = pre @ [] @ post"
    by (rule replace_first_occurrence) simp
  then show "replace (pre @ ''Bearer '' @ post) ''Bearer '' [] = pre @ post" by simp
next
  assume "\<not> includes_str a ''Bearer ''"
  then show "replace a ''Bearer '' [] = a" by (rule replace_absent)
next
  assume h: "API_KEY env = Some key \<and> key \<noteq> [] \<and> \<not> includes_str key ''Bearer ''
      \<and> \<not> truthy_str (headers request ''X-API-Key'')
      \<and> headers request ''Authorization'' = Some key"
  then have "replace key ''Bearer '' [] = key" by (simp add: replace_absent)
  then have "apiKey request = API_KEY env" using h apiKey_secondary[of request] by simp
  moreover have "truthy_str (API_KEY env)" using h by (simp add: truthy_str_def)
  ultimately show "validateApiKey request env = \<lparr>auth_success = True, auth_error = None\<rparr>"
    by (rule validateApiKey_match[rotated])
next
  assume h: "API_KEY env = Some key \<and> includes_str key ''Bearer ''
      \<and> \<not> truthy_str (headers request ''X-API-Key'')
      \<and> headers request ''Authorization'' = Some key"
  then have "length (replace key ''Bearer '' []) < length key"
    by (simp add: replace_shorter)
  moreover have "apiKey request = Some (replace key ''Bearer '' [])"
    using h apiKey_secondary[of request] by simp
  ultimately show "\<not> auth_success (validateApiKey request env)"
    using h validateApiKey_fails_on_shorter by blast
next
  assume h: "API_KEY env = Some key \<and> key \<noteq> []
      \<and> \<not> truthy_str (headers request ''X-API-Key'')
      \<and> headers request ''Authorization'' = Some (''Bearer '' @ key)"
  have "replace (''Bearer '' @ key) ''Bearer '' [] = [] @ key"
    by (rule replace_prefix) simp
  then have "apiKey request = API_KEY env" using h apiKey_secondary[of request] by simp
  moreover have "truthy_str (API_KEY env)" using h by (simp add: truthy_str_def)
  ultimately show "validateApiKey request env = \<lparr>auth_success = True, auth_error = None\<rparr>"
    by (rule validateApiKey_match[rotated])
qed

theorem bearer_first_occurrence_removed_witness:
  "apiKey (bare_request\<lparr>headers := [''Authorization'' \<mapsto> ''Token Bearer k3y'']\<rparr>)
     = Some ''Token k3y'' \<and>
   replace ''Token Bearer k3y'' ''Bearer '' [] = ''Token k3y'' \<and>
   replace ''Basic k3y'' ''Bearer '' [] = ''Basic k3y'' \<and>
   validateApiKey (bare_request\<lparr>headers := [''Authorization'' \<mapsto> ''k3y'']\<rparr>)
       (no_env\<lparr>API_KEY := Some ''k3y''\<rparr>)
     = \<lparr>auth_success = True, auth_error = None\<rparr> \<and>
   \<not> auth_success
       (validateApiKey (bare_request\<lparr>headers := [''Authorization'' \<mapsto> ''Bearer abc'']\<rparr>)
          (no_env\<lparr>API_KEY := Some ''Bearer abc''\<rparr>)) \<and>
   validateApiKey (bare_request\<lparr>headers := [''Authorization'' \<mapsto> ''Bearer Bearer abc'']\<rparr>)
       (no_env\<lparr>API_KEY := Some ''Bearer abc''\<rparr>)
     = \<lparr>auth_success = True, auth_error = None\<rparr>"
  using
    bearer_first_occurrence_removed[where
      request = "bare_request\<lparr>headers := [''Authorization'' \<mapsto> ''Token Bearer k3y'']\<rparr>"
      and a = "''Token Bearer k3y''" and pre = "''Token ''" and post = "''k3y''"]
    bearer_first_occurrence_removed[where a = "''Basic k3y''"]
    bearer_first_occurrence_removed[where
      request = "bare_request\<lparr>headers := [''Authorization'' \<mapsto> ''k3y'']\<rparr>"
      and env = "no_env\<lparr>API_KEY := Some ''k3y''\<rparr>" and key = "''k3y''"]
    bearer_first_occurrence_removed[where
      request = "bare_request\<lparr>headers := [''Authorization'' \<mapsto> ''Bearer abc'']\<rparr>"
      and env = "no_env\<lparr>API_KEY := Some ''Bearer abc''\<rparr>" and key = "''Bearer abc''"]
    bearer_first_occurrence_removed[where
      request = "bare_request\<lparr>headers := [''Authorization'' \<mapsto> ''Bearer Bearer abc'']\<rparr>"
      and env = "no_env\<lparr>API_KEY := Some ''Bearer abc''\<rparr>" and key = "''Bearer abc''"]
  by (simp add: no_env_def bare_request_def truthy_str_def startsWith_def)

text \<open>
  Claim C10 as it is written fails: a key whose value contains \<^verbatim>\<open>Bearer\<close> and a space does
  authenticate through \<^verbatim>\<open>Authorization\<close>, sent after the usual prefix.
\<close>

theorem key_containing_bearer_authenticates:
  "includes_str ''Bearer abc'' ''Bearer '' \<and>
   auth_success
     (validateApiKey (bare_request\<lparr>headers := [''Authorization'' \<mapsto> ''Bearer Bearer abc'']\<rparr>)
        (no_env\<lparr>API_KEY := Some ''Bearer abc''\<rparr>))"
  by (simp add: validateApiKey_def apiKey_def or_else_def truthy_str_def no_env_def
        bare_request_def startsWith_def secureCompare_eq)

section \<open>Properties of the allowed origin\<close>

lemma split_not_Nil: "split s sep \<noteq> []"
  by (induction s) (auto split: list.splits)

lemma allowedOrigins_not_Nil: "allowedOrigins env \<noteq> []"
  by (simp add: allowedOrigins_def split_not_Nil split: option.splits)

lemma requestOrigin_cases:
  "requestOrigin request =
     (case headers request ''Origin'' of None \<Rightarrow> ''*'' | Some origin \<Rightarrow> if origin = [] then ''*'' else origin)"
  by (simp add: requestOrigin_def or_default_def split: option.splits)

text \<open>
  Claim C7. An empty string counts as absent, for the \<^verbatim>\<open>Origin\<close> header and for the first
  entry of the list alike. With the list unconfigured, or containing \<^verbatim>\<open>*\<close>, the result is
  \<^verbatim>\<open>*\<close>. Otherwise a request whose \<^verbatim>\<open>Origin\<close> is in the list gets it back. In every other
  case (no \<^verbatim>\<open>Origin\<close>, or one that is not in the list) the result is the first entry of the
  list, which always has one, and \<^verbatim>\<open>*\<close> only when that entry is empty. A configured list
  is the pieces of the variable between commas, trimmed.
\<close>

theorem getAllowedOrigin_cases:
  "(ALLOWED_ORIGINS env = None \<longrightarrow> getAllowedOrigin request env = ''*'') \<and>
   (''*'' \<in> set (allowedOrigins env) \<longrightarrow> getAllowedOrigin request env = ''*'') \<and>
   (''*'' \<notin> set (allowedOrigins env) \<and> headers request ''Origin'' = Some origin \<and> origin \<noteq> []
      \<and> origin \<in> set (allowedOrigins env) \<longrightarrow>
      getAllowedOrigin request env = origin) \<and>
   (''*'' \<notin> set (allowedOrigins env)
      \<and> \<not> (\<exists>origin. headers request ''Origin'' = Some origin \<and> origin \<noteq> []
                \<and> origin \<in> set (allowedOrigins env)) \<longrightarrow>
      (\<exists>first others. allowedOrigins env = first # others
         \<and> getAllowedOrigin request env = (if first = [] then ''*'' else first))) \<and>
   (ALLOWED_ORIGINS env = Some s \<longrightarrow> allowedOrigins env = map trim (split s CHR '',''))"
proof (intro conjI impI)
  assume "ALLOWED_ORIGINS env = None"
  then show "getAllowedOrigin request env = ''*''"
    by (simp add: getAllowedOrigin_def allowedOrigins_def)
next
  assume "''*'' \<in> set (allowedOrigins env)"
  then show "getAllowedOrigin request env = ''*''"
    by (simp add: getAllowedOrigin_def)
next
  assume h: "''*'' \<notin> set (allowedOrigins env) \<and> headers request ''Origin'' = Some origin
      \<and> origin \<noteq> [] \<and> origin \<in> set (allowedOrigins env)"
  then have "requestOrigin request = origin" by (simp add: requestOrigin_cases)
  then show "getAllowedOrigin request env = origin"
    using h by (simp add: getAllowedOrigin_def)
next
  assume h: "''*'' \<notin> set (allowedOrigins env)
      \<and> \<not> (\<exists>origin. headers request ''Origin'' = Some origin \<and> origin \<noteq> []
                \<and> origin \<in> set (allowedOrigins env))"
  have notin: "requestOrigin request \<notin> set (allowedOrigins env)"
    using h by (auto simp: requestOrigin_cases split: option.splits if_splits)
  obtain first others where l: "allowedOrigins env = first # others"
    using allowedOrigins_not_Nil[of env] by (cases "allowedOrigins env") auto
  have "getAllowedOrigin request env = (if first = [] then ''*'' else first)"
    using h notin l by (simp add: getAllowedOrigin_def)
  then show "\<exists>first others. allowedOrigins env = first # others
         \<and> getAllowedOrigin request env = (if first = [] then ''*'' else first)"
    using l by blast
next
  assume "ALLOWED_ORIGINS env = Some s"
  then show "allowedOrigins env = map trim (split s CHR '','')"
    by (simp add: allowedOrigins_def)
qed

theorem getAllowedOrigin_witness:
  "getAllowedOrigin (bare_request\<lparr>headers := [''Origin'' \<mapsto> ''https://a.example'']\<rparr>) no_env
     = ''*'' \<and>
   getAllowedOrigin (bare_request\<lparr>headers := [''Origin'' \<mapsto> ''https://a.example'']\<rparr>)
       (no_env\<lparr>ALLOWED_ORIGINS := Some ''https://a.example, *''\<rparr>)
     = ''*'' \<and>
   getAllowedOrigin (bare_request\<lparr>headers := [''Origin'' \<mapsto> ''https://b.example'']\<rparr>)
       (no_env\<lparr>ALLOWED_ORIGINS := Some ''https://a.example, https://b.example''\<rparr>)
     = ''https://b.example'' \<and>
   getAllowedOrigin (bare_request\<lparr>headers := [''Origin'' \<mapsto> ''https://c.example'']\<rparr>)
       (no_env\<lparr>ALLOWED_ORIGINS := Some ''https://a.example, https://b.example''\<rparr>)
     = ''https://a.example'' \<and>
   getAllowedOrigin bare_request (no_env\<lparr>ALLOWED_ORIGINS := Some '' ,https://b.example''\<rparr>)
     = ''*'' \<and>
   allowedOrigins (no_env\<lparr>ALLOWED_ORIGINS := Some ''https://a.example, https://b.example''\<rparr>)
     = [''https://a.example'', ''https://b.example'']"
proof -
  have unset: "getAllowedOrigin
      (bare_request\<lparr>headers := [''Origin'' \<mapsto> ''https://a.example'']\<rparr>) no_env = ''*''"
    using getAllowedOrigin_cases[where env = no_env
      and request = "bare_request\<lparr>headers := [''Origin'' \<mapsto> ''https://a.example'']\<rparr>"
      and origin = "''https://a.example''" and s = "[]"]
    by (simp add: no_env_def)
  have star: "getAllowedOrigin
      (bare_request\<lparr>headers := [''Origin'' \<mapsto> ''https://a.example'']\<rparr>)
      (no_env\<lparr>ALLOWED_ORIGINS := Some ''https://a.example, *''\<rparr>) = ''*''"
    using getAllowedOrigin_cases[where
      env = "no_env\<lparr>ALLOWED_ORIGINS := Some ''https://a.example, *''\<rparr>"
      and request = "bare_request\<lparr>headers := [''Origin'' \<mapsto> ''https://a.example'']\<rparr>"
      and origin = "''https://a.example''" and s = "''https://a.example, *''"]
    by (simp add: no_env_def allowedOrigins_def trim_def isWhiteSpace_def)
  have listed: "allowedOrigins
      (no_env\<lparr>ALLOWED_ORIGINS := Some ''https://a.example, https://b.example''\<rparr>)
      = [''https://a.example'', ''https://b.example'']"
    using getAllowedOrigin_cases[where
      env = "no_env\<lparr>ALLOWED_ORIGINS := Some ''https://a.example, https://b.example''\<rparr>"
      and s = "''https://a.example, https://b.example''"]
    by (simp add: no_env_def trim_def isWhiteSpace_def)
  have echo: "getAllowedOrigin
      (bare_request\<lparr>headers := [''Origin'' \<mapsto> ''https://b.example'']\<rparr>)
      (no_env\<lparr>ALLOWED_ORIGINS := Some ''https://a.example, https://b.example''\<rparr>)
      = ''https://b.example''"
    using getAllowedOrigin_cases[where
      env = "no_env\<lparr>ALLOWED_ORIGINS := Some ''https://a.example, https://b.example''\<rparr>"
      and request = "bare_request\<lparr>headers := [''Origin'' \<mapsto> ''https://b.example'']\<rparr>"
      and origin = "''https://b.example''" and s = "''https://a.example, https://b.example''"]
    by (simp add: listed bare_request_def)
  have fallback: "getAllowedOrigin
      (bare_request\<lparr>headers := [''Origin'' \<mapsto> ''https://c.example'']\<rparr>)
      (no_env\<lparr>ALLOWED_ORIGINS := Some ''https://a.example, https://b.example''\<rparr>)
      = ''https://a.example''"
    using getAllowedOrigin_cases[where
      env = "no_env\<lparr>ALLOWED_ORIGINS := Some ''https://a.example, https://b.example''\<rparr>"
      and request = "bare_request\<lparr>headers := [''Origin'' \<mapsto> ''https://c.example'']\<rparr>"
      and origin = "''https://c.example''" and s = "''https://a.example, https://b.example''"]
    by (simp add: listed bare_request_def)
  have blank: "allowedOrigins (no_env\<lparr>ALLOWED_ORIGINS := Some '' ,https://b.example''\<rparr>)
      = [[], ''https://b.example'']"
    by (simp add: no_env_def allowedOrigins_def trim_def isWhiteSpace_def)
  have empty_first: "getAllowedOrigin bare_request
      (no_env\<lparr>ALLOWED_ORIGINS := Some '' ,https://b.example''\<rparr>) = ''*''"
    using getAllowedOrigin_cases[where
      env = "no_env\<lparr>ALLOWED_ORIGINS := Some '' ,https://b.example''\<rparr>"
      and request = bare_request and origin = "[]" and s = "'' ,https://b.example''"]
    by (simp add: blank bare_request_def)
  show ?thesis using unset star listed echo fallback empty_first by simp
qed

section \<open>Properties of the challenge verifier\<close>

text \<open>Past its two checks the verifier makes exactly one outbound call, to the fixed URL.\<close>

lemma verifyTurnstile_calls_once:
  "truthy_str (TURNSTILE_SECRET_KEY env) \<Longrightarrow> truthy token \<Longrightarrow>
   \<exists>fields. snd (verifyTurnstile token env remoteIp net) = [FormPost TURNSTILE_VERIFY_URL fields]"
  by (simp add: verifyTurnstile_def Let_def split: fetch_result.splits)

text \<open>
  Claim C8. The checks come in the order of the source. With no verification secret set
  (unset or empty) the outcome is the failure with the not-configured error, whatever the
  token; with a secret set and an empty token (any falsy token) it is the failure with the
  missing-token error. In both cases the list of outbound calls made is empty.
\<close>

theorem verifyTurnstile_fails_before_any_call:
  "(\<not> truthy_str (TURNSTILE_SECRET_KEY env) \<longrightarrow>
      verifyTurnstile token env remoteIp net
        = (\<lparr>tr_success = False, tr_error = Some ''Turnstile secret key not configured''\<rparr>, [])) \<and>
   (truthy_str (TURNSTILE_SECRET_KEY env) \<longrightarrow>
      verifyTurnstile (JStr []) env remoteIp net
        = (\<lparr>tr_success = False, tr_error = Some ''Missing Turnstile token''\<rparr>, [])) \<and>
   (truthy_str (TURNSTILE_SECRET_KEY env) \<and> \<not> truthy token \<longrightarrow>
      verifyTurnstile token env remoteIp net
        = (\<lparr>tr_success = False, tr_error = Some ''Missing Turnstile token''\<rparr>, []))"
  by (simp add: verifyTurnstile_def)

theorem verifyTurnstile_fails_before_any_call_witness:
  "verifyTurnstile (JStr ''token'') no_env None dead_net
     = (\<lparr>tr_success = False, tr_error = Some ''Turnstile secret key not configured''\<rparr>, []) \<and>
   verifyTurnstile (JStr ''token'') (no_env\<lparr>TURNSTILE_SECRET_KEY := Some []\<rparr>) None dead_net
     = (\<lparr>tr_success = False, tr_error = Some ''Turnstile secret key not configured''\<rparr>, []) \<and>
   verifyTurnstile (JStr []) (no_env\<lparr>TURNSTILE_SECRET_KEY := Some ''secret''\<rparr>) None dead_net
     = (\<lparr>tr_success = False, tr_error = Some ''Missing Turnstile token''\<rparr>, []) \<and>
   verifyTurnstile JUndefined (no_env\<lparr>TURNSTILE_SECRET_KEY := Some ''secret''\<rparr>)
       (Some ''203.0.113.7'') dead_net
     = (\<lparr>tr_success = False, tr_error = Some ''Missing Turnstile token''\<rparr>, [])"
  using
    verifyTurnstile_fails_before_any_call[where env = no_env and token = "JStr ''token''"
      and remoteIp = None and net = dead_net]
    verifyTurnstile_fails_before_any_call[where env = "no_env\<lparr>TURNSTILE_SECRET_KEY := Some []\<rparr>"
      and token = "JStr ''token''" and remoteIp = None and net = dead_net]
    verifyTurnstile_fails_before_any_call[where
      env = "no_env\<lparr>TURNSTILE_SECRET_KEY := Some ''secret''\<rparr>"
      and token = "JStr []" and remoteIp = None and net = dead_net]
    verifyTurnstile_fails_before_any_call[where
      env = "no_env\<lparr>TURNSTILE_SECRET_KEY := Some ''secret''\<rparr>"
      and token = JUndefined and remoteIp = "Some ''203.0.113.7''" and net = dead_net]
  by (simp add: no_env_def truthy_str_def)

section \<open>Properties of the error messages of the verifier\<close>

lemma describeCode_known: "map_of ERROR_CODES code = Some d \<Longrightarrow> describeCode code = d"
  by (auto simp: describeCode_def ERROR_CODES_get_def or_default_def ERROR_CODES_def
        split: if_splits)

lemma describeCode_unknown:
  "map_of ERROR_CODES code = None \<Longrightarrow> \<not> inheritedKey code \<Longrightarrow> describeCode code = code"
  by (auto simp: describeCode_def ERROR_CODES_get_def inheritedKey_def)

text \<open>
  A code that names an inherited property is not in the table, and is not passed
  through: its text is that of the inherited function or object.
\<close>

lemma inheritedKey_not_in_table: "inheritedKey code \<Longrightarrow> map_of ERROR_CODES code = None"
  by (auto simp: inheritedKey_def Object_prototype_functions_def ERROR_CODES_def
        split: if_splits)

lemma describeCode_inherited_text:
  assumes "inheritedKey code"
  shows "describeCode code = ''[object Object]'' \<or>
         (\<exists>f. describeCode code = ''function '' @ f @ ''() { [native code] }'')"
proof (cases "map_of Object_prototype_functions code")
  case None
  then have "code = ''__proto__''" using assms by (simp add: inheritedKey_def)
  then show ?thesis
    using None inheritedKey_not_in_table[OF assms]
    by (simp add: describeCode_def ERROR_CODES_get_def)
next
  case (Some f)
  then show ?thesis
    using inheritedKey_not_in_table[OF assms]
    by (simp add: describeCode_def ERROR_CODES_get_def)
qed

lemma inheritedKey_plain: "inheritedKey code \<Longrightarrow> CHR '' '' \<notin> set code"
  by (auto simp: inheritedKey_def Object_prototype_functions_def split: if_splits)

lemma describeCode_inherited:
  assumes "inheritedKey code"
  shows "describeCode code \<noteq> code"
  using describeCode_inherited_text[OF assms] inheritedKey_plain[OF assms] by auto

text \<open>Only the generic message, taken as a code, is described by the generic message.\<close>

lemma describeCode_generic:
  "describeCode code = ''Unknown verification error'' \<longleftrightarrow> code = ''Unknown verification error''"
proof (cases "map_of ERROR_CODES code")
  case (Some d)
  then have "describeCode code = d" by (rule describeCode_known)
  moreover have "d \<noteq> ''Unknown verification error'' \<and> code \<noteq> ''Unknown verification error''"
    using Some by (auto simp: ERROR_CODES_def split: if_splits)
  ultimately show ?thesis by simp
next
  case None
  show ?thesis
  proof (cases "inheritedKey code")
    case False
    then show ?thesis using None by (simp add: describeCode_unknown)
  next
    case True
    have "code \<noteq> ''Unknown verification error''"
      using inheritedKey_plain[OF True] by auto
    moreover have "describeCode code \<noteq> ''Unknown verification error''"
      using describeCode_inherited_text[OF True] by auto
    ultimately show ?thesis by simp
  qed
qed

lemma join_two_has_separator: "CHR '';'' \<in> set (join (x # y # ys) ''; '')"
  by simp

lemma getErrorMessage_generic_iff:
  "getErrorMessage codes = ''Unknown verification error'' \<longleftrightarrow>
     codes = None \<or> codes = Some [] \<or> codes = Some [''Unknown verification error'']"
proof (cases codes)
  case None
  then show ?thesis by (simp add: getErrorMessage_def)
next
  case (Some cs)
  show ?thesis
  proof (cases cs)
    case Nil
    then show ?thesis using Some by (simp add: getErrorMessage_def)
  next
    case (Cons c cs')
    show ?thesis
    proof (cases cs')
      case Nil
      then show ?thesis using Some Cons
        by (simp add: getErrorMessage_def describeCode_generic)
    next
      case (Cons c' cs'')
      have "CHR '';'' \<in> set (join (describeCode c # describeCode c' # map describeCode cs'') ''; '')"
        by (rule join_two_has_separator)
      moreover have "CHR '';'' \<notin> set ''Unknown verification error''" by simp
      ultimately have "join (describeCode c # describeCode c' # map describeCode cs'') ''; ''
          \<noteq> ''Unknown verification error''"
        by metis
      then show ?thesis using Some \<open>cs = c # cs'\<close> Cons
        by (simp add: getErrorMessage_def)
    qed
  qed
qed

text \<open>
  Claim C9, as amended. A code of the table is described by its entry, and a code that is
  neither in the table nor the name of a property that every object inherits is described
  by itself; for a list that is not empty the message is the descriptions in order,
  joined by a semicolon and a space; for a list that is absent or empty it is the generic
  message. The generic message is returned exactly when the list is absent, empty, or
  holds the generic message as its only code.
\<close>

theorem getErrorMessage_describes_and_joins:
  "(map_of ERROR_CODES code = Some d \<longrightarrow> describeCode code = d) \<and>
   (map_of ERROR_CODES code = None \<and> \<not> inheritedKey code \<longrightarrow> describeCode code = code) \<and>
   getErrorMessage (Some [c]) = describeCode c \<and>
   getErrorMessage (Some (c # c' # cs))
     = describeCode c @ ''; '' @ getErrorMessage (Some (c' # cs)) \<and>
   getErrorMessage None = ''Unknown verification error'' \<and>
   getErrorMessage (Some []) = ''Unknown verification error'' \<and>
   (getErrorMessage codes = ''Unknown verification error'' \<longleftrightarrow>
      codes = None \<or> codes = Some [] \<or> codes = Some [''Unknown verification error''])"
proof (intro conjI impI)
  assume "map_of ERROR_CODES code = Some d"
  then show "describeCode code = d" by (rule describeCode_known)
next
  assume "map_of ERROR_CODES code = None \<and> \<not> inheritedKey code"
  then show "describeCode code = code" by (simp add: describeCode_unknown)
next
  show "getErrorMessage (Some [c]) = describeCode c" by (simp add: getErrorMessage_def)
next
  show "getErrorMessage (Some (c # c' # cs))
     = describeCode c @ ''; '' @ getErrorMessage (Some (c' # cs))"
    by (simp add: getErrorMessage_def)
next
  show "getErrorMessage None = ''Unknown verification error''" by (simp add: getErrorMessage_def)
next
  show "getErrorMessage (Some []) = ''Unknown verification error''"
    by (simp add: getErrorMessage_def)
next
  show "getErrorMessage codes = ''Unknown verification error'' \<longleftrightarrow>
      codes = None \<or> codes = Some [] \<or> codes = Some [''Unknown verification error'']"
    by (rule getErrorMessage_generic_iff)
qed

theorem getErrorMessage_witness:
  "describeCode ''invalid-input-response'' = ''The response parameter is invalid or has expired'' \<and>
   describeCode ''no-such-code'' = ''no-such-code'' \<and>
   getErrorMessage (Some [''bad-request'', ''no-such-code''])
     = ''The request was rejected because it was malformed; no-such-code''"
  using
    getErrorMessage_describes_and_joins[where code = "''invalid-input-response''"
      and d = "''The response parameter is invalid or has expired''"]
    getErrorMessage_describes_and_joins[where code = "''no-such-code''"]
    getErrorMessage_describes_and_joins[where code = "''bad-request''"
      and d = "''The request was rejected because it was malformed''"
      and c = "''bad-request''" and c' = "''no-such-code''" and cs = "[]"]
    getErrorMessage_describes_and_joins[where c = "''no-such-code''"]
  by (simp add: ERROR_CODES_def inheritedKey_def Object_prototype_functions_def)

text \<open>
  Claim C9 as it is written fails in two places. A list that is neither absent nor empty
  also gives the generic message when its one code is that very text, which is passed
  through as any unknown code is. And a code that is not in the table is not passed
  through when it names an inherited property: for \<^verbatim>\<open>constructor\<close> the message is the text
  of the function \<^verbatim>\<open>Object\<close>.
\<close>

theorem generic_message_from_nonempty_list:
  "Some [''Unknown verification error''] \<noteq> None \<and>
   [''Unknown verification error''] \<noteq> [] \<and>
   getErrorMessage (Some [''Unknown verification error'']) = ''Unknown verification error'' \<and>
   map_of ERROR_CODES ''constructor'' = None \<and>
   getErrorMessage (Some [''constructor'']) \<noteq> ''constructor'' \<and>
   getErrorMessage (Some [''constructor'']) = ''function Object() { [native code] }''"
  by (simp add: getErrorMessage_def describeCode_def ERROR_CODES_get_def or_default_def
        ERROR_CODES_def Object_prototype_functions_def)

section \<open>Properties of the message formatter\<close>

lemma replace_all_Nil_iff: "rep \<noteq> [] \<Longrightarrow> replace_all s c rep = [] \<longleftrightarrow> s = []"
  by (cases s) (auto simp: replace_all_def)

lemma escapeHtml_Nil_iff: "escapeHtml s = [] \<longleftrightarrow> s = []"
  by (simp add: escapeHtml_def replace_all_Nil_iff)

lemma String_of_number_not_Nil: "String_of_number n \<noteq> []"
  using String_of_number[of n] by simp

lemma String_of_number_of_text: "t \<noteq> [] \<Longrightarrow> String_of_number (number_of_text t) = t"
  by (simp add: number_of_text_inverse)

lemma Boolean_toString_not_Nil: "Boolean_toString b \<noteq> []"
  by (simp add: Boolean_toString_def)

text \<open>A metadata value has no text exactly when it is one of the skipped values.\<close>

lemma metadataStr_Nil_iff: "metadataStr v = [] \<longleftrightarrow> skipped_value v"
  by (cases v)
    (simp_all add: escapeHtml_Nil_iff String_of_number_not_Nil Boolean_toString_not_Nil
       SerializeJSONArray_def SerializeJSONObject_def)

lemma metadataFields_filter_map:
  "metadataFields entries = map metadataField (filter (\<lambda>entry. \<not> skipped_value (snd entry)) entries)"
  by (induction entries rule: metadataFields.induct)
    (simp_all add: metadataStr_Nil_iff metadataField_def)

text \<open>An object none of whose keys is an array index is gone through in the order of creation.\<close>

lemma ownPropertyOrder_no_index:
  "list_all (\<lambda>p. \<not> isArrayIndex (fst p)) props \<Longrightarrow> ownPropertyOrder props = props"
  by (simp add: ownPropertyOrder_def list_all_iff)

text \<open>The array indices are the decimal texts of the numbers below \<open>2\<^sup>3\<^sup>2 - 1\<close>.\<close>

lemma digit_char:
  assumes "d < 10"
  shows "isDigit (''0123456789'' ! d) \<and> of_char (''0123456789'' ! d) - 48 = d"
proof -
  have "d = 0 \<or> d = 1 \<or> d = 2 \<or> d = 3 \<or> d = 4 \<or> d = 5 \<or> d = 6 \<or> d = 7 \<or> d = 8 \<or> d = 9"
    using assms by arith
  then show ?thesis by (elim disjE) (simp_all add: isDigit_def)
qed

lemma digits_nat_snoc: "digits_nat (s @ [c]) = 10 * digits_nat s + (of_char c - 48)"
  by (simp add: digits_nat_def)

lemma nat_digits_sound: "list_all isDigit (nat_digits n) \<and> digits_nat (nat_digits n) = n"
proof (induction n rule: nat_digits.induct)
  case (1 n)
  show ?case
  proof (cases "n < 10")
    case True
    then show ?thesis
      using digit_char[OF True] by (subst (1 2) nat_digits.simps) (simp add: digits_nat_def)
  next
    case False
    have d: "n mod 10 < 10" by simp
    have "nat_digits n = nat_digits (n div 10) @ [''0123456789'' ! (n mod 10)]"
      using False by (subst nat_digits.simps) simp
    then show ?thesis
      using "1.IH"[OF False] digit_char[OF d] by (simp add: digits_nat_snoc)
  qed
qed

lemma nat_digits_not_Nil: "nat_digits n \<noteq> []"
  by (subst nat_digits.simps) simp

lemma isArrayIndex_iff: "isArrayIndex k \<longleftrightarrow> (\<exists>n. n < 4294967295 \<and> k = nat_digits n)"
proof
  assume "isArrayIndex k"
  then have "digits_nat k < 4294967295 \<and> k = nat_digits (digits_nat k)"
    by (simp add: isArrayIndex_def)
  then show "\<exists>n. n < 4294967295 \<and> k = nat_digits n" by blast
next
  assume "\<exists>n. n < 4294967295 \<and> k = nat_digits n"
  then obtain n where "n < 4294967295" and "k = nat_digits n" by blast
  then show "isArrayIndex k"
    using nat_digits_sound[of n] nat_digits_not_Nil[of n] by (simp add: isArrayIndex_def)
qed

text \<open>The keys and texts of the examples below, evaluated.\<close>

lemma example_digits: "digits_nat ''10'' = 10 \<and> digits_nat ''2'' = 2"
  by (simp add: digits_nat_def)

lemma example_nat_digits: "nat_digits 10 = ''10'' \<and> nat_digits 2 = ''2''"
  by (simp add: nat_digits.simps)

lemma example_keys:
  "\<not> isArrayIndex ''a'' \<and> \<not> isArrayIndex ''b'' \<and> \<not> isArrayIndex ''c'' \<and>
   isArrayIndex ''10'' \<and> isArrayIndex ''2''"
  by (simp add: isArrayIndex_def isDigit_def example_digits example_nat_digits)

lemma example_trims:
  "trim '' hello '' = ''hello'' \<and> trim ''Hi <there>'' = ''Hi <there>'' \<and>
   trim '' x < y '' = ''x < y'' \<and> trim ''x'' = ''x'' \<and> trim ''y'' = ''y'' \<and> trim ''z'' = ''z'' \<and>
   trim [] = []"
  by code_simp

lemma example_escapes:
  "escapeHtml ''Hi <there>'' = ''Hi &lt;there&gt;'' \<and> escapeHtml ''hello'' = ''hello'' \<and>
   escapeHtml ''x < y'' = ''x &lt; y'' \<and> escapeHtml ''1'' = ''1'' \<and>
   escapeHtml ''1e+21'' = ''1e+21'' \<and> escapeHtml ''a'' = ''a'' \<and> escapeHtml ''b'' = ''b'' \<and>
   escapeHtml ''x'' = ''x'' \<and> escapeHtml ''y'' = ''y'' \<and> escapeHtml ''z'' = ''z'' \<and>
   escapeHtml ''10'' = ''10'' \<and> escapeHtml ''2'' = ''2''"
  by code_simp

text \<open>
  Claim C3, as amended. For the payload with subject \<^verbatim>\<open>Hi <there>\<close>, message \<^verbatim>\<open> hello \<close>
  and metadata \<^verbatim>\<open>{a: 1, b: null}\<close> the formatter produces three lines joined by line
  feeds: the escaped subject in bold markup, the trimmed message, and for \<^verbatim>\<open>a\<close> the
  fragment with the key and its colon in bold markup; \<^verbatim>\<open>b\<close>, whose value is \<^verbatim>\<open>null\<close>,
  contributes nothing.
\<close>

theorem formatMessage_example:
  "formatMessage \<lparr>message = JStr '' hello '', subject = JStr ''Hi <there>'',
                  metadata = JObj [(''a'', JNum (number_of_text ''1'')), (''b'', JNull)]\<rparr>
     = ''<b>Hi &lt;there&gt;</b>'' @ [CHR 0x0A] @ ''hello'' @ [CHR 0x0A] @ ''<b>a:</b> 1''"
  by (simp add: formatMessage_def ownPropertyOrder_def example_keys example_trims
        example_escapes String_of_number_of_text)

text \<open>
  Claim C3 as it is written fails: the third line is not the plain fragment \<^verbatim>\<open>a: 1\<close>.
\<close>

theorem formatMessage_example_not_plain:
  "formatMessage \<lparr>message = JStr '' hello '', subject = JStr ''Hi <there>'',
                  metadata = JObj [(''a'', JNum (number_of_text ''1'')), (''b'', JNull)]\<rparr>
     \<noteq> ''<b>Hi &lt;there&gt;</b>'' @ [CHR 0x0A] @ ''hello'' @ [CHR 0x0A] @ ''a: 1''"
  by (simp add: formatMessage_def ownPropertyOrder_def example_keys example_trims
        example_escapes String_of_number_of_text)

text \<open>
  Claim C4, as amended. The entries of a metadata mapping are gone through in the order of
  \<^verbatim>\<open>Object.entries\<close>: the keys that are array indices (the decimal texts of the integers
  from 0 to \<open>2\<^sup>3\<^sup>2 - 2\<close>) first, in ascending numeric order, then the other keys in
  insertion order; a mapping without such keys is gone through in insertion order. The
  fields are, in that order, one fragment for every entry that is not skipped; the
  fragment is the escaped key and a colon in bold markup, a space and the text of the
  value: a string trimmed and escaped, a number or a boolean printed and escaped, an array
  or an object as escaped JSON text. The skipped entries are exactly those whose value is
  \<^verbatim>\<open>null\<close>, \<^verbatim>\<open>undefined\<close> or a string that is empty once trimmed. The formatter appends
  these fields to those of the subject and the message.
\<close>

theorem metadata_fragments:
  "metadataFields entries
     = map metadataField (filter (\<lambda>entry. \<not> skipped_value (snd entry)) entries) \<and>
   formatMessage \<lparr>message = m, subject = s, metadata = JObj props\<rparr>
     = join (subjectField s @ messageField m
             @ map metadataField
                 (filter (\<lambda>entry. \<not> skipped_value (snd entry)) (Object_entries (JObj props))))
         [CHR 0x0A] \<and>
   Object_entries (JObj props)
     = sort_key (\<lambda>p. digits_nat (fst p)) (filter (\<lambda>p. isArrayIndex (fst p)) props)
       @ filter (\<lambda>p. \<not> isArrayIndex (fst p)) props \<and>
   (isArrayIndex k \<longleftrightarrow> (\<exists>n. n < 4294967295 \<and> k = nat_digits n)) \<and>
   (list_all (\<lambda>p. \<not> isArrayIndex (fst p)) props \<longrightarrow> Object_entries (JObj props) = props) \<and>
   metadataField (key, JStr text) = ''<b>'' @ escapeHtml key @ '':</b> '' @ escapeHtml (trim text) \<and>
   metadataField (key, JNum n)
     = ''<b>'' @ escapeHtml key @ '':</b> '' @ escapeHtml (String_of_number n) \<and>
   metadataField (key, JBool b)
     = ''<b>'' @ escapeHtml key @ '':</b> '' @ escapeHtml (Boolean_toString b) \<and>
   metadataField (key, JArr xs)
     = ''<b>'' @ escapeHtml key @ '':</b> '' @ escapeHtml (SerializeJSONArray xs) \<and>
   metadataField (key, JObj kvs)
     = ''<b>'' @ escapeHtml key @ '':</b> '' @ escapeHtml (SerializeJSONObject kvs) \<and>
   (skipped_value v \<longleftrightarrow> v = JNull \<or> v = JUndefined \<or> (\<exists>text. v = JStr text \<and> trim text = []))"
proof (intro conjI)
  show "metadataFields entries
     = map metadataField (filter (\<lambda>entry. \<not> skipped_value (snd entry)) entries)"
    by (rule metadataFields_filter_map)
next
  show "formatMessage \<lparr>message = m, subject = s, metadata = JObj props\<rparr>
     = join (subjectField s @ messageField m
             @ map metadataField
                 (filter (\<lambda>entry. \<not> skipped_value (snd entry)) (Object_entries (JObj props))))
         [CHR 0x0A]"
    by (simp add: formatMessage_def metadataFields_filter_map)
next
  show "Object_entries (JObj props)
     = sort_key (\<lambda>p. digits_nat (fst p)) (filter (\<lambda>p. isArrayIndex (fst p)) props)
       @ filter (\<lambda>p. \<not> isArrayIndex (fst p)) props"
    by (simp add: ownPropertyOrder_def)
next
  show "isArrayIndex k \<longleftrightarrow> (\<exists>n. n < 4294967295 \<and> k = nat_digits n)"
    by (rule isArrayIndex_iff)
next
  show "list_all (\<lambda>p. \<not> isArrayIndex (fst p)) props \<longrightarrow> Object_entries (JObj props) = props"
    by (simp add: ownPropertyOrder_no_index)
next
  show "skipped_value v \<longleftrightarrow> v = JNull \<or> v = JUndefined \<or> (\<exists>text. v = JStr text \<and> trim text = [])"
    by (cases v) simp_all
qed (simp_all add: metadataField_def)

theorem metadata_fragments_witness:
  "Object_entries (JObj [(''b'', JNum (number_of_text ''1e+21'')), (''a'', JStr '' x < y ''),
                          (''c'', JNull)])
     = [(''b'', JNum (number_of_text ''1e+21'')), (''a'', JStr '' x < y ''), (''c'', JNull)] \<and>
   formatMessage \<lparr>message = JUndefined, subject = JUndefined,
                  metadata = JObj [(''b'', JNum (number_of_text ''1e+21'')),
                                   (''a'', JStr '' x < y ''), (''c'', JNull)]\<rparr>
     = ''<b>b:</b> 1e+21'' @ [CHR 0x0A] @ ''<b>a:</b> x &lt; y''"
proof -
  have no_index: "list_all (\<lambda>p. \<not> isArrayIndex (fst p))
      [(''b'', JNum (number_of_text ''1e+21'')), (''a'', JStr '' x < y ''), (''c'', JNull)]"
    by (simp add: example_keys)
  have entries: "Object_entries (JObj [(''b'', JNum (number_of_text ''1e+21'')),
      (''a'', JStr '' x < y ''), (''c'', JNull)])
      = [(''b'', JNum (number_of_text ''1e+21'')), (''a'', JStr '' x < y ''), (''c'', JNull)]"
    by (rule metadata_fragments[THEN conjunct2, THEN conjunct2, THEN conjunct2,
          THEN conjunct2, THEN conjunct1, THEN mp, OF no_index])
  have "formatMessage \<lparr>message = JUndefined, subject = JUndefined,
                  metadata = JObj [(''b'', JNum (number_of_text ''1e+21'')),
                                   (''a'', JStr '' x < y ''), (''c'', JNull)]\<rparr>
     = join (subjectField JUndefined @ messageField JUndefined
             @ map metadataField
                 (filter (\<lambda>entry. \<not> skipped_value (snd entry))
                    (Object_entries (JObj [(''b'', JNum (number_of_text ''1e+21'')),
                                   (''a'', JStr '' x < y ''), (''c'', JNull)]))))
         [CHR 0x0A]"
    by (rule metadata_fragments[THEN conjunct2, THEN conjunct1])
  then have "formatMessage \<lparr>message = JUndefined, subject = JUndefined,
                  metadata = JObj [(''b'', JNum (number_of_text ''1e+21'')),
                                   (''a'', JStr '' x < y ''), (''c'', JNull)]\<rparr>
     = ''<b>b:</b> 1e+21'' @ [CHR 0x0A] @ ''<b>a:</b> x &lt; y''"
    by (simp only: entries)
       (simp add: metadataField_def example_trims example_escapes String_of_number_of_text)
  then show ?thesis using entries by simp
qed

text \<open>
  Claim C4 as it is written fails: an entry whose value is the empty string is neither
  \<^verbatim>\<open>null\<close> nor \<^verbatim>\<open>undefined\<close> and yields no fragment; the fragment of an entry is not the
  plain \<^verbatim>\<open>key: value\<close>; and the entries under the keys \<^verbatim>\<open>10\<close> and \<^verbatim>\<open>2\<close>, inserted after
  the key \<^verbatim>\<open>b\<close> and in this order, yield their fragments before it and in ascending order.
\<close>

theorem blank_string_entry_skipped:
  "JStr [] \<noteq> JNull \<and> JStr [] \<noteq> JUndefined \<and>
   metadataFields (Object_entries (JObj [(''a'', JStr []), (''b'', JStr ''x'')]))
     = [''<b>b:</b> x''] \<and>
   metadataFields (Object_entries (JObj [(''a'', JNum (number_of_text ''1''))])) \<noteq> [''a: 1''] \<and>
   metadataFields (Object_entries (JObj [(''b'', JStr ''x''), (''10'', JStr ''y''), (''2'', JStr ''z'')]))
     = [''<b>2:</b> z'', ''<b>10:</b> y'', ''<b>b:</b> x'']"
  by (simp add: ownPropertyOrder_def example_keys example_digits example_trims example_escapes
        escapeHtml_Nil_iff String_of_number_of_text)

section \<open>Properties of the router and the notification handler\<close>

lemma map_of_headers_set: "map_of (headers_set hs name v) = (map_of hs)(name \<mapsto> v)"
  by (induction hs name v rule: headers_set.induct) auto

lemma status_errorResponse: "status (errorResponse msg st) = st"
  by (simp add: errorResponse_def jsonResponse_def)

lemma status_successResponse: "status (successResponse msg data) = 200"
  by (simp add: successResponse_def jsonResponse_def)

lemma response_headers_errorResponse:
  "response_headers (errorResponse msg st) = [(''Content-Type'', ''application/json'')]"
  by (simp add: errorResponse_def jsonResponse_def)

text \<open>The four CORS headers of a response.\<close>

lemma withCors_headers:
  "map_of (response_headers (withCors response origin)) ''Access-Control-Allow-Origin'' = Some origin \<and>
   map_of (response_headers (withCors response origin)) ''Access-Control-Allow-Methods''
     = Some ''GET, POST, OPTIONS'' \<and>
   map_of (response_headers (withCors response origin)) ''Access-Control-Allow-Headers''
     = Some ''Content-Type, X-API-Key, Authorization'' \<and>
   map_of (response_headers (withCors response origin)) ''Access-Control-Max-Age'' = Some ''86400''"
  by (simp add: withCors_def map_of_headers_set)

lemma handleOptions_headers:
  "map_of (response_headers (handleOptions request env)) ''Access-Control-Allow-Origin''
     = Some (getAllowedOrigin request env) \<and>
   map_of (response_headers (handleOptions request env)) ''Access-Control-Allow-Methods''
     = Some ''GET, POST, OPTIONS'' \<and>
   map_of (response_headers (handleOptions request env)) ''Access-Control-Allow-Headers''
     = Some ''Content-Type, X-API-Key, Authorization'' \<and>
   map_of (response_headers (handleOptions request env)) ''Access-Control-Max-Age'' = Some ''86400''"
  by (simp add: handleOptions_def)

text \<open>
  Every response that \<^verbatim>\<open>handleRequest\<close> returns, on whatever branch, carries the four CORS
  headers; so does the response of the entry point whenever \<^verbatim>\<open>handleRequest\<close> returns.
\<close>

lemma handleRequest_cors:
  assumes "handleRequest request env net now = (Inr response, calls)"
  shows "map_of (response_headers response) ''Access-Control-Allow-Origin''
           = Some (getAllowedOrigin request env) \<and>
         map_of (response_headers response) ''Access-Control-Allow-Methods''
           = Some ''GET, POST, OPTIONS'' \<and>
         map_of (response_headers response) ''Access-Control-Allow-Headers''
           = Some ''Content-Type, X-API-Key, Authorization'' \<and>
         map_of (response_headers response) ''Access-Control-Max-Age'' = Some ''86400''"
proof (cases "http_method request = ''OPTIONS''")
  case True
  then have "response = handleOptions request env"
    using assms by (simp add: handleRequest_def)
  then show ?thesis by (simp only: handleOptions_headers)
next
  case False
  then obtain inner where "response = withCors inner (getAllowedOrigin request env)"
    using assms by (auto simp: handleRequest_def split: prod.splits sum.splits)
  then show ?thesis by (simp only: withCors_headers)
qed

lemma fetch_returns_what_handleRequest_returns:
  "handleRequest request env net now = (Inr response, calls) \<Longrightarrow>
   fetch request env net now = (response, calls)"
  by (simp add: fetch_def)

text \<open>The branches of the router that involve no handler of their own.\<close>

lemma handleRequest_statuses:
  "(http_method request = ''OPTIONS'' \<longrightarrow>
      (\<exists>r. handleRequest request env net now = (Inr r, []) \<and> status r = 204 \<and> body r = None)) \<and>
   (http_method request \<noteq> ''OPTIONS''
      \<and> pathname request \<notin> {''/'', ''/health'', ''/notify'', ''/api/notify''} \<longrightarrow>
      (\<exists>r. handleRequest request env net now = (Inr r, []) \<and> status r = 404)) \<and>
   (http_method request \<notin> {''OPTIONS'', ''POST''}
      \<and> pathname request \<in> {''/notify'', ''/api/notify''} \<longrightarrow>
      (\<exists>r. handleRequest request env net now = (Inr r, []) \<and> status r = 405)) \<and>
   (http_method request \<noteq> ''OPTIONS'' \<and> pathname request \<in> {''/'', ''/health''} \<longrightarrow>
      (\<exists>r. handleRequest request env net now = (Inr r, []) \<and> status r = 200))"
  by (auto simp: handleRequest_def route_def handleOptions_def withCors_def
        status_errorResponse status_successResponse handleHealthCheck_def)

lemma getProp_returns:
  "b \<noteq> JNull \<Longrightarrow> b \<noteq> JUndefined \<Longrightarrow> \<exists>v. getProp b name = Inr v"
  by (cases b) simp_all

text \<open>
  The statuses of \<^verbatim>\<open>handleNotification\<close> on a request whose body is not JSON text, and on
  one whose body is any JSON value but \<^verbatim>\<open>null\<close>: the table of claim C2.
\<close>

lemma handleNotification_no_json:
  assumes "json request = None"
  shows "\<exists>r. handleNotification request env net = (Inr r, [])
           \<and> status r = (if \<not> auth_success (validateApiKey request env) then 401 else 400)"
  using assms by (simp add: handleNotification_def Let_def status_errorResponse)

lemma handleNotification_statuses:
  assumes "json request = Some b"
    and "getProp b ''turnstile_token'' = Inr token" and "getProp b ''message'' = Inr msg"
    and "getProp b ''subject'' = Inr subj" and "getProp b ''metadata'' = Inr meta"
  shows "\<exists>r calls. handleNotification request env net = (Inr r, calls) \<and>
           status r =
             (if \<not> auth_success (validateApiKey request env) then 401
              else if \<not> truthy token \<or> \<not> truthy msg then 400
              else if \<not> tr_success (fst (verifyTurnstile token env
                          (or_else (headers request ''CF-Connecting-IP'') None) net)) then 403
              else if \<not> validate (new_TelegramAction (TELEGRAM_BOT_TOKEN env) (TELEGRAM_CHAT_ID env))
                      \<or> \<not> ar_success (fst (execute
                            (new_TelegramAction (TELEGRAM_BOT_TOKEN env) (TELEGRAM_CHAT_ID env))
                            \<lparr>message = msg, subject = subj, metadata = meta\<rparr> net)) then 500
              else 200)"
  using assms
  by (simp add: handleNotification_def Let_def status_errorResponse status_successResponse
        split: prod.splits)

lemma handleNotification_returns_unless_null:
  assumes "json request = Some b" and "b \<noteq> JNull" and "b \<noteq> JUndefined"
  shows "\<exists>r calls. handleNotification request env net = (Inr r, calls)
           \<and> status r \<in> {200, 400, 401, 403, 500}"
proof -
  obtain token msg subj meta where
    "getProp b ''turnstile_token'' = Inr token" "getProp b ''message'' = Inr msg"
    "getProp b ''subject'' = Inr subj" "getProp b ''metadata'' = Inr meta"
    using getProp_returns[OF assms(2,3)] by metis
  from handleNotification_statuses[OF assms(1) this, of env net]
  obtain r calls where "handleNotification request env net = (Inr r, calls)"
    and "status r \<in> {200, 400, 401, 403, 500}"
    by (auto split: if_splits)
  then show ?thesis by blast
qed

text \<open>
  Claim C2 fails on the code at a body that is the JSON text \<^verbatim>\<open>null\<close>: it is valid JSON and
  carries no \<^verbatim>\<open>turnstile_token\<close>, yet the handler returns no response with status 400: the
  read of \<^verbatim>\<open>body.turnstile_token\<close> throws, before any outbound call, and the entry point
  answers with status 500.
\<close>

theorem handleNotification_null_body_throws:
  "handleNotification (request\<lparr>json := Some JNull\<rparr>) (env\<lparr>API_KEY := None\<rparr>) net
     = (Inl TypeError, []) \<and>
   status (fst (fetch (request\<lparr>http_method := ''POST'', pathname := ''/notify'', json := Some JNull\<rparr>)
                  (env\<lparr>API_KEY := None\<rparr>) net now)) = 500"
  by (simp add: handleNotification_def validateApiKey_def fetch_def handleRequest_def route_def
        status_errorResponse)

text \<open>
  Claim C1 fails on the code at the same request: the response of the catch-all is the
  plain error response, whose only header is the content type; none of the four CORS
  headers is set on it.
\<close>

theorem fetch_catch_all_response_without_cors:
  "response_headers
     (fst (fetch (request\<lparr>http_method := ''POST'', pathname := ''/notify'', json := Some JNull\<rparr>)
             (env\<lparr>API_KEY := None\<rparr>) net now))
     = [(''Content-Type'', ''application/json'')] \<and>
   map_of (response_headers
     (fst (fetch (request\<lparr>http_method := ''POST'', pathname := ''/notify'', json := Some JNull\<rparr>)
             (env\<lparr>API_KEY := None\<rparr>) net now))) ''Access-Control-Allow-Origin'' = None"
  by (simp add: handleNotification_def validateApiKey_def fetch_def handleRequest_def route_def
        response_headers_errorResponse)

end
